theory Spec2Isabelle
  imports Main "HOL-Library.Word"
begin

unbundle bit_operations_syntax

section \<open>Errors\<close>

text \<open>
  The client reports failures as Go \<^verbatim>\<open>error\<close> values. Errors created by the client itself
  (\<^verbatim>\<open>fmt.Errorf\<close>) get one constructor per call site, carrying the formatted arguments.
  Errors handed through from a library (\<^verbatim>\<open>return err\<close>) are \<open>LibError\<close> values chosen by the
  library. \<open>OutputAsError\<close> stands for \<^verbatim>\<open>return body, output\<close>: the error value is the output
  target itself. A nil pointer dereference (a run-time panic) is \<open>NilPointerPanic\<close>; it aborts
  the call like an error does.
\<close>

datatype error =
    OnlyOneCredentials
  | UnknownAuthType string
  | NoSharedArnEndpoint
  | InvalidProtocol string
  | TimeoutParseFailure error
  | TimeoutNotPositive string
  | UnknownLogging string
  | NoRegion
  | NoHost
  | JsonSyntaxError string
  | LibError string
  | OutputAsError
  | NilPointerPanic

datatype error_kind =
    MissingConfiguration
  | InvalidConfiguration
  | InvalidArgument
  | UnsupportedOperation
  | TransportError
  | MalformedResponse
  | ApiError
  | Panic

text \<open>
  Modelled from the spec: the source has no error types, only messages; the classification
  of section 7 of the specification names the kind of each error the client creates.
  Errors of a library are classified where they are returned, not here.
\<close>

fun kind_of :: "error \<Rightarrow> error_kind option" where
  "kind_of OnlyOneCredentials = Some InvalidArgument"
| "kind_of (UnknownAuthType a) = Some InvalidArgument"
| "kind_of NoSharedArnEndpoint = Some UnsupportedOperation"
| "kind_of (InvalidProtocol p) = Some InvalidConfiguration"
| "kind_of (TimeoutParseFailure e) = Some InvalidConfiguration"
| "kind_of (TimeoutNotPositive h) = Some InvalidConfiguration"
| "kind_of (UnknownLogging x) = Some InvalidConfiguration"
| "kind_of NoRegion = Some MissingConfiguration"
| "kind_of NoHost = Some MissingConfiguration"
| "kind_of (JsonSyntaxError m) = Some MalformedResponse"
| "kind_of (LibError m) = None"
| "kind_of OutputAsError = Some ApiError"
| "kind_of NilPointerPanic = Some Panic"

section \<open>JSON validity, as \<^verbatim>\<open>encoding/json\<close> checks it\<close>

text \<open>
  \<^verbatim>\<open>json.Unmarshal\<close> first runs \<^verbatim>\<open>checkValid\<close> over the whole input and returns its syntax
  error before it looks at the target; only valid input is decoded. The scanner is a state
  machine over bytes with a stack of open objects and arrays. The stack is kept with its top
  at the head of the list.
\<close>

datatype parse_state = parseObjectKey | parseObjectValue | parseArrayValue

datatype step_fn =
    StBeginValueOrEmpty | StBeginValue | StBeginStringOrEmpty | StBeginString
  | StEndValue | StEndTop
  | StInString | StInStringEsc | StInStringEscU | StInStringEscU1 | StInStringEscU12
  | StInStringEscU123
  | StNeg | St1 | St0 | StDot | StDot0 | StE | StESign | StE0
  | StT | StTr | StTru | StF | StFa | StFal | StFals | StN | StNu | StNul
  | StError

record scanner =
  sc_step :: step_fn
  sc_endTop :: bool
  sc_parseState :: "parse_state list"
  sc_err :: "error option"

definition maxNestingDepth :: nat where
  "maxNestingDepth = 10000"

definition scanner_reset :: scanner where
  "scanner_reset = \<lparr>sc_step = StBeginValue, sc_endTop = False, sc_parseState = [], sc_err = None\<rparr>"

definition scanner_error :: "scanner \<Rightarrow> string \<Rightarrow> scanner" where
  "scanner_error s context = s\<lparr>sc_step := StError, sc_err := Some (JsonSyntaxError context)\<rparr>"

definition isSpace :: "char \<Rightarrow> bool" where
  "isSpace c = (c = CHR '' '' \<or> c = CHR 0x09 \<or> c = CHR 0x0D \<or> c = CHR 0x0A)"

definition isDigit :: "char \<Rightarrow> bool" where
  "isDigit c = (c \<in> set ''0123456789'')"

definition isDigit19 :: "char \<Rightarrow> bool" where
  "isDigit19 c = (c \<in> set ''123456789'')"

definition isHex :: "char \<Rightarrow> bool" where
  "isHex c = (c \<in> set ''0123456789abcdefABCDEF'')"

definition isControl :: "char \<Rightarrow> bool" where
  "isControl c = ((of_char c :: nat) < 32)"

definition pushParseState :: "scanner \<Rightarrow> parse_state \<Rightarrow> scanner" where
  "pushParseState s p =
     (let s1 = s\<lparr>sc_parseState := p # sc_parseState s\<rparr>
      in if length (sc_parseState s1) \<le> maxNestingDepth then s1
         else scanner_error s1 ''exceeded max depth'')"

definition popParseState :: "scanner \<Rightarrow> scanner" where
  "popParseState s =
     (let s1 = s\<lparr>sc_parseState := tl (sc_parseState s)\<rparr>
      in if sc_parseState s1 = [] then s1\<lparr>sc_step := StEndTop, sc_endTop := True\<rparr>
         else s1\<lparr>sc_step := StEndValue\<rparr>)"

definition stateEndTop :: "scanner \<Rightarrow> char \<Rightarrow> scanner" where
  "stateEndTop s c = (if \<not> isSpace c then scanner_error s ''after top-level value'' else s)"

definition stateEndValue :: "scanner \<Rightarrow> char \<Rightarrow> scanner" where
  "stateEndValue s c =
     (case sc_parseState s of
        [] \<Rightarrow> stateEndTop (s\<lparr>sc_step := StEndTop, sc_endTop := True\<rparr>) c
      | ps # rest \<Rightarrow>
          if isSpace c then s\<lparr>sc_step := StEndValue\<rparr>
          else (case ps of
            parseObjectKey \<Rightarrow>
              if c = CHR '':'' then s\<lparr>sc_parseState := parseObjectValue # rest, sc_step := StBeginValue\<rparr>
              else scanner_error s ''after object key''
          | parseObjectValue \<Rightarrow>
              if c = CHR '','' then s\<lparr>sc_parseState := parseObjectKey # rest, sc_step := StBeginString\<rparr>
              else if c = CHR ''}'' then popParseState s
              else scanner_error s ''after object key:value pair''
          | parseArrayValue \<Rightarrow>
              if c = CHR '','' then s\<lparr>sc_step := StBeginValue\<rparr>
              else if c = CHR '']'' then popParseState s
              else scanner_error s ''after array element''))"

definition stateBeginValue :: "scanner \<Rightarrow> char \<Rightarrow> scanner" where
  "stateBeginValue s c =
     (if isSpace c then s
      else if c = CHR ''{'' then pushParseState (s\<lparr>sc_step := StBeginStringOrEmpty\<rparr>) parseObjectKey
      else if c = CHR ''['' then pushParseState (s\<lparr>sc_step := StBeginValueOrEmpty\<rparr>) parseArrayValue
      else if c = CHR 0x22 then s\<lparr>sc_step := StInString\<rparr>
      else if c = CHR ''-'' then s\<lparr>sc_step := StNeg\<rparr>
      else if c = CHR ''0'' then s\<lparr>sc_step := St0\<rparr>
      else if c = CHR ''t'' then s\<lparr>sc_step := StT\<rparr>
      else if c = CHR ''f'' then s\<lparr>sc_step := StF\<rparr>
      else if c = CHR ''n'' then s\<lparr>sc_step := StN\<rparr>
      else if isDigit19 c then s\<lparr>sc_step := St1\<rparr>
      else scanner_error s ''looking for beginning of value'')"

definition stateBeginValueOrEmpty :: "scanner \<Rightarrow> char \<Rightarrow> scanner" where
  "stateBeginValueOrEmpty s c =
     (if isSpace c then s
      else if c = CHR '']'' then stateEndValue s c
      else stateBeginValue s c)"

definition stateBeginString :: "scanner \<Rightarrow> char \<Rightarrow> scanner" where
  "stateBeginString s c =
     (if isSpace c then s
      else if c = CHR 0x22 then s\<lparr>sc_step := StInString\<rparr>
      else scanner_error s ''looking for beginning of object key string'')"

definition stateBeginStringOrEmpty :: "scanner \<Rightarrow> char \<Rightarrow> scanner" where
  "stateBeginStringOrEmpty s c =
     (if isSpace c then s
      else if c = CHR ''}'' then
        stateEndValue (s\<lparr>sc_parseState := parseObjectValue # tl (sc_parseState s)\<rparr>) c
      else stateBeginString s c)"

definition stateInString :: "scanner \<Rightarrow> char \<Rightarrow> scanner" where
  "stateInString s c =
     (if c = CHR 0x22 then s\<lparr>sc_step := StEndValue\<rparr>
      else if c = CHR 0x5C then s\<lparr>sc_step := StInStringEsc\<rparr>
      else if isControl c then scanner_error s ''in string literal''
      else s)"

definition stateInStringEsc :: "scanner \<Rightarrow> char \<Rightarrow> scanner" where
  "stateInStringEsc s c =
     (if c \<in> set ''bfnrt/'' \<or> c = CHR 0x5C \<or> c = CHR 0x22 then s\<lparr>sc_step := StInString\<rparr>
      else if c = CHR ''u'' then s\<lparr>sc_step := StInStringEscU\<rparr>
      else scanner_error s ''in string escape code'')"

definition stateHex :: "step_fn \<Rightarrow> scanner \<Rightarrow> char \<Rightarrow> scanner" where
  "stateHex nxt s c =
     (if isHex c then s\<lparr>sc_step := nxt\<rparr>
      else scanner_error s ''in hexadecimal character escape'')"

definition state0 :: "scanner \<Rightarrow> char \<Rightarrow> scanner" where
  "state0 s c =
     (if c = CHR ''.'' then s\<lparr>sc_step := StDot\<rparr>
      else if c = CHR ''e'' \<or> c = CHR ''E'' then s\<lparr>sc_step := StE\<rparr>
      else stateEndValue s c)"

definition state1 :: "scanner \<Rightarrow> char \<Rightarrow> scanner" where
  "state1 s c = (if isDigit c then s\<lparr>sc_step := St1\<rparr> else state0 s c)"

definition stateNeg :: "scanner \<Rightarrow> char \<Rightarrow> scanner" where
  "stateNeg s c =
     (if c = CHR ''0'' then s\<lparr>sc_step := St0\<rparr>
      else if isDigit19 c then s\<lparr>sc_step := St1\<rparr>
      else scanner_error s ''in numeric literal'')"

definition stateDot :: "scanner \<Rightarrow> char \<Rightarrow> scanner" where
  "stateDot s c =
     (if isDigit c then s\<lparr>sc_step := StDot0\<rparr>
      else scanner_error s ''after decimal point in numeric literal'')"

definition stateDot0 :: "scanner \<Rightarrow> char \<Rightarrow> scanner" where
  "stateDot0 s c =
     (if isDigit c then s
      else if c = CHR ''e'' \<or> c = CHR ''E'' then s\<lparr>sc_step := StE\<rparr>
      else stateEndValue s c)"

definition stateESign :: "scanner \<Rightarrow> char \<Rightarrow> scanner" where
  "stateESign s c =
     (if isDigit c then s\<lparr>sc_step := StE0\<rparr>
      else scanner_error s ''in exponent of numeric literal'')"

definition stateE :: "scanner \<Rightarrow> char \<Rightarrow> scanner" where
  "stateE s c =
     (if c = CHR ''+'' \<or> c = CHR ''-'' then s\<lparr>sc_step := StESign\<rparr>
      else stateESign s c)"

definition stateE0 :: "scanner \<Rightarrow> char \<Rightarrow> scanner" where
  "stateE0 s c = (if isDigit c then s else stateEndValue s c)"

definition stateLit :: "char \<Rightarrow> step_fn \<Rightarrow> string \<Rightarrow> scanner \<Rightarrow> char \<Rightarrow> scanner" where
  "stateLit expected nxt context s c =
     (if c = expected then s\<lparr>sc_step := nxt\<rparr> else scanner_error s context)"

definition scanner_step :: "scanner \<Rightarrow> char \<Rightarrow> scanner" where
  "scanner_step s c =
     (case sc_step s of
        StBeginValueOrEmpty \<Rightarrow> stateBeginValueOrEmpty s c
      | StBeginValue \<Rightarrow> stateBeginValue s c
      | StBeginStringOrEmpty \<Rightarrow> stateBeginStringOrEmpty s c
      | StBeginString \<Rightarrow> stateBeginString s c
      | StEndValue \<Rightarrow> stateEndValue s c
      | StEndTop \<Rightarrow> stateEndTop s c
      | StInString \<Rightarrow> stateInString s c
      | StInStringEsc \<Rightarrow> stateInStringEsc s c
      | StInStringEscU \<Rightarrow> stateHex StInStringEscU1 s c
      | StInStringEscU1 \<Rightarrow> stateHex StInStringEscU12 s c
      | StInStringEscU12 \<Rightarrow> stateHex StInStringEscU123 s c
      | StInStringEscU123 \<Rightarrow> stateHex StInString s c
      | StNeg \<Rightarrow> stateNeg s c
      | St1 \<Rightarrow> state1 s c
      | St0 \<Rightarrow> state0 s c
      | StDot \<Rightarrow> stateDot s c
      | StDot0 \<Rightarrow> stateDot0 s c
      | StE \<Rightarrow> stateE s c
      | StESign \<Rightarrow> stateESign s c
      | StE0 \<Rightarrow> stateE0 s c
      | StT \<Rightarrow> stateLit (CHR ''r'') StTr ''in literal true (expecting r)'' s c
      | StTr \<Rightarrow> stateLit (CHR ''u'') StTru ''in literal true (expecting u)'' s c
      | StTru \<Rightarrow> stateLit (CHR ''e'') StEndValue ''in literal true (expecting e)'' s c
      | StF \<Rightarrow> stateLit (CHR ''a'') StFa ''in literal false (expecting a)'' s c
      | StFa \<Rightarrow> stateLit (CHR ''l'') StFal ''in literal false (expecting l)'' s c
      | StFal \<Rightarrow> stateLit (CHR ''s'') StFals ''in literal false (expecting s)'' s c
      | StFals \<Rightarrow> stateLit (CHR ''e'') StEndValue ''in literal false (expecting e)'' s c
      | StN \<Rightarrow> stateLit (CHR ''u'') StNu ''in literal null (expecting u)'' s c
      | StNu \<Rightarrow> stateLit (CHR ''l'') StNul ''in literal null (expecting l)'' s c
      | StNul \<Rightarrow> stateLit (CHR ''l'') StEndValue ''in literal null (expecting l)'' s c
      | StError \<Rightarrow> s)"

text \<open>
  The loop of \<^verbatim>\<open>checkValid\<close> stops at the first byte after which the scanner holds an error;
  at the end of the input \<^verbatim>\<open>eof\<close> feeds one space to finish a pending number or literal and
  demands that a top-level value is complete.
\<close>

fun scan_bytes :: "scanner \<Rightarrow> string \<Rightarrow> scanner" where
  "scan_bytes s [] = s"
| "scan_bytes s (c # cs) =
     (let s1 = scanner_step s c
      in if sc_err s1 \<noteq> None then s1 else scan_bytes s1 cs)"

definition scanner_eof :: "scanner \<Rightarrow> error option" where
  "scanner_eof s =
     (if sc_err s \<noteq> None then sc_err s
      else if sc_endTop s then None
      else (let s1 = scanner_step s (CHR '' '')
            in if sc_endTop s1 then None
               else if sc_err s1 \<noteq> None then sc_err s1
               else Some (JsonSyntaxError ''unexpected end of JSON input'')))"

definition checkValid :: "string \<Rightarrow> error option" where
  "checkValid data = scanner_eof (scan_bytes scanner_reset data)"

definition stub_body :: string where
  "stub_body = [CHR ''{'', CHR 0x22, CHR ''t'', CHR ''e'', CHR ''s'', CHR ''t'', CHR 0x22, CHR ''}'']"

section \<open>The client\<close>

text \<open>
  \<^verbatim>\<open>Client\<close> of \<^verbatim>\<open>client.go\<close>, field by field. Go's \<^verbatim>\<open>int\<close> is a 64-bit word, read as signed
  where the source compares it; \<^verbatim>\<open>time.Duration\<close> is an \<^verbatim>\<open>int64\<close> of nanoseconds. A Go map is
  an association list: its order stands for the order in which \<^verbatim>\<open>range\<close> happens to visit
  the entries. A pointer that may be nil is an option.
\<close>

record http_Transport =
  tr_ProxyFromEnvironment :: bool
  tr_InsecureSkipVerify :: bool

record http_Client =
  hc_Transport :: http_Transport
  hc_Timeout :: "64 word"

record Client =
  Host :: string
  AccessKey :: string
  SecretKey :: string
  Region :: string
  Protocol :: string
  Timeout :: "64 word"
  Headers :: "(string \<times> string) list"
  LfaArn :: string
  LraArn :: string
  Arn :: string
  CheckEnvironment :: bool
  SkipVerifyCertificate :: bool
  Transport :: "http_Transport option"
  Logging :: "32 word"
  LoggingFromInitialize :: "string list"
  FirewallJwt :: string
  RulestackJwt :: string
  credsFile :: string
  apiPrefix :: string
  con :: "http_Client option"
  testData :: "string list"
  testErrors :: "error list"
  testIndex :: "64 word"
  authFileContent :: string

text \<open>The zero value \<^verbatim>\<open>Client{}\<close>.\<close>

definition Client_zero :: Client where
  "Client_zero =
     \<lparr>Host = [], AccessKey = [], SecretKey = [], Region = [], Protocol = [], Timeout = 0,
      Headers = [], LfaArn = [], LraArn = [], Arn = [], CheckEnvironment = False,
      SkipVerifyCertificate = False, Transport = None, Logging = 0, LoggingFromInitialize = [],
      FirewallJwt = [], RulestackJwt = [], credsFile = [], apiPrefix = [], con = None,
      testData = [], testErrors = [], testIndex = 0, authFileContent = []\<rparr>"

section \<open>What the configuration resolver reads from outside\<close>

text \<open>
  The process environment, the file system and the library functions \<^verbatim>\<open>initCon\<close> calls are
  parameters: \<^verbatim>\<open>os.Getenv\<close> (the empty string for an unset variable), \<^verbatim>\<open>ioutil.ReadFile\<close>,
  \<^verbatim>\<open>strconv.Atoi\<close>, \<^verbatim>\<open>strconv.ParseBool\<close>, and the decoding phase of \<^verbatim>\<open>json.Unmarshal\<close>, which
  runs on input that \<open>checkValid\<close> accepted. Decoding the credentials file yields the decoded
  client, and \<open>None\<close> when the file holds the JSON literal null, which sets the pointer
  \<^verbatim>\<open>json_client\<close> to nil. The constants \<^verbatim>\<open>LogQuiet\<close> ... \<^verbatim>\<open>LogReceive\<close> are declared in a file of
  the package that is not part of the sources at hand, so their values are parameters too.
\<close>

record os_env =
  os_Getenv :: "string \<Rightarrow> string"
  ioutil_ReadFile :: "string \<Rightarrow> error + string"
  strconv_Atoi :: "string \<Rightarrow> error + 64 word"
  strconv_ParseBool :: "string \<Rightarrow> error + bool"
  json_decode_Client :: "string \<Rightarrow> error + Client option"
  json_decode_Headers :: "string \<Rightarrow> (string \<times> string) list \<Rightarrow> error option \<times> (string \<times> string) list"
  LogQuiet :: "32 word"
  LogLogin :: "32 word"
  LogGet :: "32 word"
  LogPost :: "32 word"
  LogPut :: "32 word"
  LogDelete :: "32 word"
  LogPath :: "32 word"
  LogSend :: "32 word"
  LogReceive :: "32 word"

definition json_Unmarshal_Client :: "os_env \<Rightarrow> string \<Rightarrow> error + Client option" where
  "json_Unmarshal_Client env b =
     (case checkValid b of Some e \<Rightarrow> Inl e | None \<Rightarrow> json_decode_Client env b)"

definition json_Unmarshal_Headers ::
  "os_env \<Rightarrow> string \<Rightarrow> (string \<times> string) list \<Rightarrow> error option \<times> (string \<times> string) list" where
  "json_Unmarshal_Headers env b h =
     (case checkValid b of Some e \<Rightarrow> (Some e, h) | None \<Rightarrow> json_decode_Headers env b h)"

text \<open>\<^verbatim>\<open>strings.Split(val, ",")\<close>: the pieces between the commas, one more than there are commas.\<close>

fun strings_Split_comma :: "string \<Rightarrow> string list" where
  "strings_Split_comma [] = [[]]"
| "strings_Split_comma (c # cs) =
     (if c = CHR '','' then [] # strings_Split_comma cs
      else (case strings_Split_comma cs of
              [] \<Rightarrow> [[c]]
            | x # xs \<Rightarrow> (c # x) # xs))"

section \<open>initCon\<close>

text \<open>
  A method on \<^verbatim>\<open>*Client\<close> takes the client and returns it as the method leaves it, together
  with the returned error (\<open>None\<close> for nil). What a stage wrote before it failed stays written.
  \<open>and_then\<close> runs the next stage unless the one before returned an error.
\<close>

type_synonym result = "error option \<times> Client"

definition and_then :: "result \<Rightarrow> (Client \<Rightarrow> result) \<Rightarrow> result" where
  "and_then r f = (case r of (Some e, c) \<Rightarrow> (Some e, c) | (None, c) \<Rightarrow> f c)"

text \<open>Lines 313-330: the JSON config file, read from \<^verbatim>\<open>authFileContent\<close> when test data is loaded.\<close>

definition load_json_client :: "os_env \<Rightarrow> Client \<Rightarrow> error + Client option" where
  "load_json_client env c =
     (if credsFile c \<noteq> [] then
        (case (if length (testData c) = 0 then ioutil_ReadFile env (credsFile c)
               else Inr (authFileContent c)) of
           Inl e \<Rightarrow> Inl e
         | Inr b \<Rightarrow> json_Unmarshal_Client env b)
      else Inr (Some Client_zero))"

text \<open>Lines 332-339.\<close>

definition init_Host :: "os_env \<Rightarrow> Client option \<Rightarrow> Client \<Rightarrow> result" where
  "init_Host env json_client c =
     (if Host c = [] then
        (let val = os_Getenv env ''CLOUD_NGFW_HOST'' in
         if CheckEnvironment c \<and> val \<noteq> [] then (None, c\<lparr>Host := val\<rparr>)
         else (case json_client of
                 None \<Rightarrow> (Some NilPointerPanic, c)
               | Some j \<Rightarrow> (None, c\<lparr>Host := Host j\<rparr>)))
      else (None, c))"

text \<open>Lines 341-348.\<close>

definition init_Region :: "os_env \<Rightarrow> Client option \<Rightarrow> Client \<Rightarrow> result" where
  "init_Region env json_client c =
     (if Region c = [] then
        (let val = os_Getenv env ''CLOUD_NGFW_REGION'' in
         if CheckEnvironment c \<and> val \<noteq> [] then (None, c\<lparr>Region := val\<rparr>)
         else (case json_client of
                 None \<Rightarrow> (Some NilPointerPanic, c)
               | Some j \<Rightarrow> (None, c\<lparr>Region := Region j\<rparr>)))
      else (None, c))"

text \<open>Lines 350-362.\<close>

definition check_Protocol :: "Client \<Rightarrow> result" where
  "check_Protocol c =
     (if Protocol c \<noteq> ''http'' \<and> Protocol c \<noteq> ''https'' then (Some (InvalidProtocol (Protocol c)), c)
      else (None, c))"

definition init_Protocol :: "os_env \<Rightarrow> Client option \<Rightarrow> Client \<Rightarrow> result" where
  "init_Protocol env json_client c =
     and_then
       (if Protocol c = [] then
          (let val = os_Getenv env ''CLOUD_NGFW_PROTOCOL'' in
           if CheckEnvironment c \<and> val \<noteq> [] then (None, c\<lparr>Protocol := val\<rparr>)
           else (case json_client of
                   None \<Rightarrow> (Some NilPointerPanic, c)
                 | Some j \<Rightarrow>
                     if Protocol j \<noteq> [] then (None, c\<lparr>Protocol := Protocol j\<rparr>)
                     else (None, c\<lparr>Protocol := ''https''\<rparr>)))
        else (None, c))
       check_Protocol"

text \<open>Lines 364-381. The local \<^verbatim>\<open>tout\<close> is computed where it is used, in \<open>init_transport\<close>.\<close>

definition check_Timeout :: "Client \<Rightarrow> result" where
  "check_Timeout c =
     (if sint (Timeout c) \<le> 0 then (Some (TimeoutNotPositive (Host c)), c) else (None, c))"

definition init_Timeout :: "os_env \<Rightarrow> Client option \<Rightarrow> Client \<Rightarrow> result" where
  "init_Timeout env json_client c =
     and_then
       (if Timeout c = 0 then
          (let val = os_Getenv env ''CLOUD_NGFW_TIMEOUT'' in
           if CheckEnvironment c \<and> val \<noteq> [] then
             (case strconv_Atoi env val of
                Inl e \<Rightarrow> (Some (TimeoutParseFailure e), c)
              | Inr ival \<Rightarrow> (None, c\<lparr>Timeout := ival\<rparr>))
           else (case json_client of
                   None \<Rightarrow> (Some NilPointerPanic, c)
                 | Some j \<Rightarrow>
                     if Timeout j \<noteq> 0 then (None, c\<lparr>Timeout := Timeout j\<rparr>)
                     else (None, c\<lparr>Timeout := 20\<rparr>)))
        else (None, c))
       check_Timeout"

text \<open>
  Lines 383-396. \<^verbatim>\<open>json.Unmarshal\<close> writes into \<^verbatim>\<open>c.Headers\<close>; the copy loop over the file's
  headers builds a map equal to them.
\<close>

definition headers_from_file :: "Client option \<Rightarrow> Client \<Rightarrow> result" where
  "headers_from_file json_client c =
     (if length (Headers c) = 0 then
        (case json_client of
           None \<Rightarrow> (Some NilPointerPanic, c)
         | Some j \<Rightarrow> if length (Headers j) > 0 then (None, c\<lparr>Headers := Headers j\<rparr>) else (None, c))
      else (None, c))"

definition init_Headers :: "os_env \<Rightarrow> Client option \<Rightarrow> Client \<Rightarrow> result" where
  "init_Headers env json_client c =
     (if length (Headers c) = 0 then
        and_then
          (let val = os_Getenv env ''CLOUD_NGFW_HEADERS'' in
           if CheckEnvironment c \<and> val \<noteq> [] then
             (case json_Unmarshal_Headers env val (Headers c) of
                (e, h) \<Rightarrow> (e, c\<lparr>Headers := h\<rparr>))
           else (None, c))
          (headers_from_file json_client)
      else (None, c))"

text \<open>Lines 398-410.\<close>

definition verify_from_file :: "Client option \<Rightarrow> Client \<Rightarrow> result" where
  "verify_from_file json_client c =
     (if \<not> SkipVerifyCertificate c then
        (case json_client of
           None \<Rightarrow> (Some NilPointerPanic, c)
         | Some j \<Rightarrow>
             if SkipVerifyCertificate j then (None, c\<lparr>SkipVerifyCertificate := SkipVerifyCertificate j\<rparr>)
             else (None, c))
      else (None, c))"

definition init_SkipVerifyCertificate :: "os_env \<Rightarrow> Client option \<Rightarrow> Client \<Rightarrow> result" where
  "init_SkipVerifyCertificate env json_client c =
     (if \<not> SkipVerifyCertificate c then
        and_then
          (let val = os_Getenv env ''CLOUD_NGFW_VERIFY_CERTIFICATE'' in
           if CheckEnvironment c \<and> val \<noteq> [] then
             (case strconv_ParseBool env val of
                Inl e \<Rightarrow> (Some e, c)
              | Inr vcb \<Rightarrow> if vcb then (None, c\<lparr>SkipVerifyCertificate := vcb\<rparr>) else (None, c))
           else (None, c))
          (verify_from_file json_client)
      else (None, c))"

text \<open>Lines 412-450. The loop over the tokens stops at the first one it does not know.\<close>

fun logging_bits :: "os_env \<Rightarrow> string list \<Rightarrow> 32 word \<Rightarrow> error + 32 word" where
  "logging_bits env [] lv = Inr lv"
| "logging_bits env (x # xs) lv =
     (if x = ''quiet'' then logging_bits env xs (lv OR LogQuiet env)
      else if x = ''login'' then logging_bits env xs (lv OR LogLogin env)
      else if x = ''get'' then logging_bits env xs (lv OR LogGet env)
      else if x = ''post'' then logging_bits env xs (lv OR LogPost env)
      else if x = ''put'' then logging_bits env xs (lv OR LogPut env)
      else if x = ''delete'' then logging_bits env xs (lv OR LogDelete env)
      else if x = ''path'' then logging_bits env xs (lv OR LogPath env)
      else if x = ''send'' then logging_bits env xs (lv OR LogSend env)
      else if x = ''receive'' then logging_bits env xs (lv OR LogReceive env)
      else Inl (UnknownLogging x))"

definition default_Logging :: "os_env \<Rightarrow> 32 word" where
  "default_Logging env = LogLogin env OR LogPost env OR LogPut env OR LogDelete env"

text \<open>The token list \<^verbatim>\<open>ll\<close>: from the environment variable, else from the file.\<close>

definition logging_list :: "os_env \<Rightarrow> Client option \<Rightarrow> Client \<Rightarrow> error + string list" where
  "logging_list env json_client c =
     (let val = os_Getenv env ''CLOUD_NGFW_LOGGING'' in
      if CheckEnvironment c \<and> val \<noteq> [] then Inr (strings_Split_comma val)
      else (case json_client of
              None \<Rightarrow> Inl NilPointerPanic
            | Some j \<Rightarrow> Inr (LoggingFromInitialize j)))"

definition init_Logging :: "os_env \<Rightarrow> Client option \<Rightarrow> Client \<Rightarrow> result" where
  "init_Logging env json_client c =
     (if Logging c = 0 then
        (case logging_list env json_client c of
           Inl e \<Rightarrow> (Some e, c)
         | Inr ll \<Rightarrow>
             if length ll > 0 then
               (case logging_bits env ll 0 of
                  Inl e \<Rightarrow> (Some e, c)
                | Inr lv \<Rightarrow> (None, c\<lparr>Logging := lv\<rparr>))
             else (None, c\<lparr>Logging := default_Logging env\<rparr>))
      else (None, c))"

text \<open>Lines 452-464: the transport, unless one was supplied, and the HTTP client.\<close>

definition time_Second :: "64 word" where
  "time_Second = 1000000000"

definition init_transport :: "Client \<Rightarrow> result" where
  "init_transport c =
     (let tout = Timeout c * time_Second;
          tr = (case Transport c of
                  None \<Rightarrow> \<lparr>tr_ProxyFromEnvironment = True,
                           tr_InsecureSkipVerify = SkipVerifyCertificate c\<rparr>
                | Some t \<Rightarrow> t)
      in (None, c\<lparr>Transport := Some tr, con := Some \<lparr>hc_Transport = tr, hc_Timeout = tout\<rparr>\<rparr>))"

text \<open>Lines 466-477: the sanity checks and the URI prefix.\<close>

definition init_prefix :: "Client \<Rightarrow> result" where
  "init_prefix c =
     (if Region c = [] then (Some NoRegion, c)
      else if Host c = [] then (Some NoHost, c)
      else (None, c\<lparr>apiPrefix := Protocol c @ ''://'' @ Host c\<rparr>))"

definition initCon :: "os_env \<Rightarrow> Client \<Rightarrow> result" where
  "initCon env c =
     (case load_json_client env c of
        Inl e \<Rightarrow> (Some e, c)
      | Inr json_client \<Rightarrow>
          and_then (init_Host env json_client c) (\<lambda>c.
          and_then (init_Region env json_client c) (\<lambda>c.
          and_then (init_Protocol env json_client c) (\<lambda>c.
          and_then (init_Timeout env json_client c) (\<lambda>c.
          and_then (init_Headers env json_client c) (\<lambda>c.
          and_then (init_SkipVerifyCertificate env json_client c) (\<lambda>c.
          and_then (init_Logging env json_client c) (\<lambda>c.
          and_then (init_transport c) init_prefix))))))))"

section \<open>What the dispatcher and the token manager talk to\<close>

text \<open>
  Requests go out to a world of type \<open>'w\<close>: the network, the identity service and the clock.
  A call to the outside takes the world and returns it as the call leaves it. A request
  payload (\<^verbatim>\<open>interface{}\<close>) is a value of type \<open>'i\<close>, an output target (\<^verbatim>\<open>api.Oker\<close>) a value of
  type \<open>'o\<close>; both are options, \<open>None\<close> for the nil interface. The library calls are parameters:
  \<^verbatim>\<open>json.Marshal\<close>, the decoding phase of \<^verbatim>\<open>json.Unmarshal\<close>, the target's \<^verbatim>\<open>Ok()\<close>, the checks
  of \<^verbatim>\<open>http.NewRequest\<close> on method and URL, the canonical form \<^verbatim>\<open>Header.Set\<close> gives a key, the
  v4 signer, \<^verbatim>\<open>time.Now\<close>, \<^verbatim>\<open>(*http.Client).Do\<close>, \<^verbatim>\<open>session.NewSessionWithOptions\<close> and
  \<^verbatim>\<open>AssumeRole\<close>. The struct \<^verbatim>\<open>authResponse\<close> is declared outside the sources at hand: its zero
  value and the field \<^verbatim>\<open>Resp.Jwt\<close> the source reads are parameters.
  Writing to the process log (\<^verbatim>\<open>log.Printf\<close>) is not modelled.
\<close>

record http_Request =
  req_Method :: string
  req_URL :: string
  req_Body :: string
  req_Header :: "(string \<times> string) list"

record http_Response =
  resp_StatusCode :: nat
  resp_ReadAll :: "error + string"

record credentials_Value =
  cv_AccessKeyID :: string
  cv_SecretAccessKey :: string
  cv_SessionToken :: string

record sts_Credentials =
  AccessKeyId :: "string option"
  SecretAccessKey :: "string option"
  SessionToken :: "string option"

record sts_AssumeRoleOutput =
  aro_Credentials :: "sts_Credentials option"

record session_Options =
  so_Credentials :: "credentials_Value option"
  so_Region :: string

record jwtKeyInfo =
  jk_Region :: string
  jk_Tenant :: string

record getJwt =
  Expires :: int
  KeyInfo :: "jwtKeyInfo option"

record ('w, 'i, 'o) api_env =
  json_Marshal :: "'i \<Rightarrow> error + string"
  json_decode :: "string \<Rightarrow> 'o \<Rightarrow> error option \<times> 'o"
  oker_Ok :: "'o \<Rightarrow> bool"
  http_NewRequest_error :: "string \<Rightarrow> string \<Rightarrow> error option"
  CanonicalMIMEHeaderKey :: "string \<Rightarrow> string"
  v4_Sign :: "credentials_Value \<Rightarrow> http_Request \<Rightarrow> string \<Rightarrow> string \<Rightarrow> string \<Rightarrow> nat
               \<Rightarrow> error + http_Request"
  time_Now :: "'w \<Rightarrow> nat"
  client_Do :: "http_Client \<Rightarrow> http_Request \<Rightarrow> 'w \<Rightarrow> (error + http_Response) \<times> 'w"
  session_NewSession :: "session_Options \<Rightarrow> 'w \<Rightarrow> error option \<times> 'w"
  sts_AssumeRole :: "session_Options \<Rightarrow> string \<Rightarrow> string \<Rightarrow> 'w
               \<Rightarrow> (error + sts_AssumeRoleOutput) \<times> 'w"
  authResponse_zero :: "'o"
  authResponse_Jwt :: "'o \<Rightarrow> string"

text \<open>
  Modelled from the spec: the constants \<^verbatim>\<open>permissions.Firewall\<close> and \<^verbatim>\<open>permissions.Rulestack\<close>
  are declared in a package outside the sources at hand; the specification names the scopes
  \<open>firewall\<close> and \<open>rulestack\<close>, and the source matches the empty string for no scope.
\<close>

definition permissions_Firewall :: string where
  "permissions_Firewall = ''firewall''"

definition permissions_Rulestack :: string where
  "permissions_Rulestack = ''rulestack''"

section \<open>Communicate\<close>

text \<open>
  What a call returns and leaves behind: the returned body (\<open>None\<close> for a nil slice) and
  error, the output target as the call leaves it, the client and the world.
\<close>

record ('w, 'o) communicated =
  ret_body :: "string option"
  ret_err :: "error option"
  out_target :: "'o option"
  client_after :: Client
  world_after :: 'w

text \<open>\<^verbatim>\<open>json.Unmarshal(body, output)\<close>: the syntax check, then the decoding into the target.\<close>

definition json_Unmarshal :: "('w, 'i, 'o) api_env \<Rightarrow> string \<Rightarrow> 'o \<Rightarrow> error option \<times> 'o" where
  "json_Unmarshal env body tgt =
     (case checkValid body of Some e \<Rightarrow> (Some e, tgt) | None \<Rightarrow> json_decode env body tgt)"

fun strings_Join_slash :: "string list \<Rightarrow> string" where
  "strings_Join_slash [] = []"
| "strings_Join_slash [x] = x"
| "strings_Join_slash (x # y # ys) = x @ ''/'' @ strings_Join_slash (y # ys)"

text \<open>
  \<^verbatim>\<open>req.Header.Set\<close> on the canonical key. The two keys the source writes literally,
  \<^verbatim>\<open>Content-Type\<close> and \<^verbatim>\<open>Authorization\<close>, are in canonical form already.
\<close>

fun alist_set :: "(string \<times> string) list \<Rightarrow> string \<Rightarrow> string \<Rightarrow> (string \<times> string) list" where
  "alist_set [] k v = [(k, v)]"
| "alist_set ((k', v') # h) k v = (if k' = k then (k, v) # h else (k', v') # alist_set h k v)"

definition Header_Set :: "http_Request \<Rightarrow> string \<Rightarrow> string \<Rightarrow> http_Request" where
  "Header_Set req k v = req\<lparr>req_Header := alist_set (req_Header req) k v\<rparr>"

definition Header_Get :: "http_Request \<Rightarrow> string \<Rightarrow> string option" where
  "Header_Get req k = map_of (req_Header req) k"

text \<open>Lines 219-225.\<close>

definition marshal_input :: "('w, 'i, 'o) api_env \<Rightarrow> 'i option \<Rightarrow> error + string" where
  "marshal_input env input = (case input of None \<Rightarrow> Inr [] | Some i \<Rightarrow> json_Marshal env i)"

text \<open>Lines 234-245: the request, with its content type.\<close>

definition new_request :: "('w, 'i, 'o) api_env \<Rightarrow> Client \<Rightarrow> string \<Rightarrow> string list \<Rightarrow> string
    \<Rightarrow> error + http_Request" where
  "new_request env c method path data =
     (let url = apiPrefix c @ ''/'' @ strings_Join_slash path in
      case http_NewRequest_error env method url of
        Some e \<Rightarrow> Inl e
      | None \<Rightarrow>
          Inr (Header_Set \<lparr>req_Method = method, req_URL = url, req_Body = data, req_Header = []\<rparr>
                 ''Content-Type'' ''application/json''))"

text \<open>Lines 246-254: the switch on the auth scope.\<close>

definition configure_auth :: "Client \<Rightarrow> string \<Rightarrow> http_Request \<Rightarrow> error + http_Request" where
  "configure_auth c auth req =
     (if auth = [] then Inr req
      else if auth = permissions_Firewall then Inr (Header_Set req ''Authorization'' (FirewallJwt c))
      else if auth = permissions_Rulestack then Inr (Header_Set req ''Authorization'' (RulestackJwt c))
      else Inl (UnknownAuthType auth))"

text \<open>Lines 255-257: the custom headers, in the order the map is ranged over.\<close>

fun custom_headers :: "('w, 'i, 'o) api_env \<Rightarrow> (string \<times> string) list \<Rightarrow> http_Request \<Rightarrow> http_Request" where
  "custom_headers env [] req = req"
| "custom_headers env ((k, v) # h) req =
     custom_headers env h (Header_Set req (CanonicalMIMEHeaderKey env k) v)"

text \<open>Lines 259-273: the optional v4 signature. A nil credentials pointer or field panics.\<close>

definition sign_request :: "('w, 'i, 'o) api_env \<Rightarrow> Client \<Rightarrow> string \<Rightarrow> sts_Credentials option list
    \<Rightarrow> http_Request \<Rightarrow> 'w \<Rightarrow> error + http_Request" where
  "sign_request env c data creds req w =
     (if length creds = 1 then
        (case hd creds of
           None \<Rightarrow> Inl NilPointerPanic
         | Some cr \<Rightarrow>
             (case (AccessKeyId cr, SecretAccessKey cr, SessionToken cr) of
                (Some a, Some s, Some t) \<Rightarrow>
                  v4_Sign env \<lparr>cv_AccessKeyID = a, cv_SecretAccessKey = s, cv_SessionToken = t\<rparr>
                    req data ''execute-api'' (Region c) (time_Now env w)
              | _ \<Rightarrow> Inl NilPointerPanic))
      else Inr req)"

text \<open>Lines 275-284: the API action. A client that was never initialised has no \<^verbatim>\<open>con\<close>.\<close>

definition perform :: "('w, 'i, 'o) api_env \<Rightarrow> Client \<Rightarrow> http_Request \<Rightarrow> 'w \<Rightarrow> (error + string) \<times> 'w" where
  "perform env c req w =
     (case con c of
        None \<Rightarrow> (Inl NilPointerPanic, w)
      | Some h \<Rightarrow>
          (case client_Do env h req w of
             (Inl e, w1) \<Rightarrow> (Inl e, w1)
           | (Inr resp, w1) \<Rightarrow> (resp_ReadAll resp, w1)))"

text \<open>Lines 230-285: the body, from the stub when test data is loaded, else from the API.\<close>

definition obtain_body :: "('w, 'i, 'o) api_env \<Rightarrow> Client \<Rightarrow> string \<Rightarrow> string \<Rightarrow> string list
    \<Rightarrow> string \<Rightarrow> sts_Credentials option list \<Rightarrow> 'w \<Rightarrow> (error + string) \<times> 'w" where
  "obtain_body env c auth method path data creds w =
     (if length (testData c) > 0 then (Inr stub_body, w)
      else
        (case new_request env c method path data of
           Inl e \<Rightarrow> (Inl e, w)
         | Inr req0 \<Rightarrow>
             (case configure_auth c auth req0 of
                Inl e \<Rightarrow> (Inl e, w)
              | Inr req1 \<Rightarrow>
                  (case sign_request env c data creds (custom_headers env (Headers c) req1) w of
                     Inl e \<Rightarrow> (Inl e, w)
                   | Inr req2 \<Rightarrow> perform env c req2 w))))"

text \<open>Lines 291-304: the output target.\<close>

definition decode_body :: "('w, 'i, 'o) api_env \<Rightarrow> Client \<Rightarrow> string \<Rightarrow> 'o option \<Rightarrow> 'w
    \<Rightarrow> ('w, 'o) communicated" where
  "decode_body env c body output w =
     (case output of
        None \<Rightarrow>
          \<lparr>ret_body = Some body, ret_err = None, out_target = None, client_after = c, world_after = w\<rparr>
      | Some tgt \<Rightarrow>
          (case json_Unmarshal env body tgt of
             (Some e, tgt1) \<Rightarrow>
               \<lparr>ret_body = Some body, ret_err = Some e, out_target = Some tgt1,
                client_after = c, world_after = w\<rparr>
           | (None, tgt1) \<Rightarrow>
               if \<not> oker_Ok env tgt1 then
                 \<lparr>ret_body = Some body, ret_err = Some OutputAsError, out_target = Some tgt1,
                  client_after = c, world_after = w\<rparr>
               else
                 \<lparr>ret_body = Some body, ret_err = None, out_target = Some tgt1,
                  client_after = c, world_after = w\<rparr>))"

definition Communicate :: "('w, 'i, 'o) api_env \<Rightarrow> Client \<Rightarrow> string \<Rightarrow> string \<Rightarrow> string list
    \<Rightarrow> 'i option \<Rightarrow> 'o option \<Rightarrow> sts_Credentials option list \<Rightarrow> 'w \<Rightarrow> ('w, 'o) communicated" where
  "Communicate env c auth method path input output creds w =
     (if length creds > 1 then
        \<lparr>ret_body = None, ret_err = Some OnlyOneCredentials, out_target = output,
         client_after = c, world_after = w\<rparr>
      else
        (case marshal_input env input of
           Inl e \<Rightarrow>
             \<lparr>ret_body = None, ret_err = Some e, out_target = output,
              client_after = c, world_after = w\<rparr>
         | Inr data \<Rightarrow>
             (case obtain_body env c auth method path data creds w of
                (Inl e, w1) \<Rightarrow>
                  \<lparr>ret_body = None, ret_err = Some e, out_target = output,
                   client_after = c, world_after = w1\<rparr>
              | (Inr body, w1) \<Rightarrow> decode_body env c body output w1)))"

section \<open>RefreshJwts\<close>

text \<open>
  The source fetches the two tokens with the same block of code (lines 146-159 and 169-182):
  assume the role, then ask the API for the token, with no auth scope, signed with the
  role's credentials. \<open>fetch_jwt\<close> is that block; it returns the token \<^verbatim>\<open>ans.Resp.Jwt\<close>.
\<close>

type_synonym 'w refreshed = "error option \<times> Client \<times> 'w"

definition fetch_jwt :: "('w, getJwt, 'o) api_env \<Rightarrow> session_Options \<Rightarrow> getJwt \<Rightarrow> string \<Rightarrow> string
    \<Rightarrow> Client \<Rightarrow> 'w \<Rightarrow> (error + string) \<times> Client \<times> 'w" where
  "fetch_jwt env sess jwtReq arn admin c w =
     (case sts_AssumeRole env sess arn ''sdk_session'' w of
        (Inl e, w1) \<Rightarrow> (Inl e, c, w1)
      | (Inr result, w1) \<Rightarrow>
          (let r = Communicate env c [] ''GET'' [''v1'', ''mgmt'', ''tokens'', admin] (Some jwtReq)
                     (Some (authResponse_zero env)) [aro_Credentials result] w1
           in case ret_err r of
                Some e \<Rightarrow> (Inl e, client_after r, world_after r)
              | None \<Rightarrow>
                  (case out_target r of
                     None \<Rightarrow> (Inr (authResponse_Jwt env (authResponse_zero env)), client_after r, world_after r)
                   | Some ans \<Rightarrow> (Inr (authResponse_Jwt env ans), client_after r, world_after r))))"

text \<open>Lines 141-162.\<close>

definition refresh_firewall :: "('w, getJwt, 'o) api_env \<Rightarrow> session_Options \<Rightarrow> getJwt \<Rightarrow> Client \<Rightarrow> 'w
    \<Rightarrow> 'w refreshed" where
  "refresh_firewall env sess jwtReq c w =
     (if LfaArn c \<noteq> [] then
        (case fetch_jwt env sess jwtReq (LfaArn c) ''cloudfirewalladmin'' c w of
           (Inl e, c1, w1) \<Rightarrow> (Some e, c1, w1)
         | (Inr jwt, c1, w1) \<Rightarrow> (None, c1\<lparr>FirewallJwt := jwt\<rparr>, w1))
      else (None, c, w))"

text \<open>Lines 164-185.\<close>

definition refresh_rulestack :: "('w, getJwt, 'o) api_env \<Rightarrow> session_Options \<Rightarrow> getJwt \<Rightarrow> Client \<Rightarrow> 'w
    \<Rightarrow> 'w refreshed" where
  "refresh_rulestack env sess jwtReq c w =
     (if LraArn c \<noteq> [] then
        (case fetch_jwt env sess jwtReq (LraArn c) ''cloudrulestackadmin'' c w of
           (Inl e, c1, w1) \<Rightarrow> (Some e, c1, w1)
         | (Inr jwt, c1, w1) \<Rightarrow> (None, c1\<lparr>RulestackJwt := jwt\<rparr>, w1))
      else (None, c, w))"

definition jwt_request :: "Client \<Rightarrow> getJwt" where
  "jwt_request c = \<lparr>Expires = 90, KeyInfo = Some \<lparr>jk_Region = Region c, jk_Tenant = ''XY''\<rparr>\<rparr>"

definition session_options :: "Client \<Rightarrow> session_Options" where
  "session_options c =
     \<lparr>so_Credentials =
        (if AccessKey c \<noteq> [] \<or> SecretKey c \<noteq> [] then
           Some \<lparr>cv_AccessKeyID = AccessKey c, cv_SecretAccessKey = SecretKey c, cv_SessionToken = []\<rparr>
         else None),
      so_Region = Region c\<rparr>"

definition RefreshJwts :: "('w, getJwt, 'o) api_env \<Rightarrow> Client \<Rightarrow> 'w \<Rightarrow> 'w refreshed" where
  "RefreshJwts env c w =
     (let jwtReq = jwt_request c; sess = session_options c in
      case session_NewSession env sess w of
        (Some e, w1) \<Rightarrow> (Some e, c, w1)
      | (None, w1) \<Rightarrow>
          if Arn c \<noteq> [] then (Some NoSharedArnEndpoint, c, w1)
          else
            (case refresh_firewall env sess jwtReq c w1 of
               (Some e, c1, w2) \<Rightarrow> (Some e, c1, w2)
             | (None, c1, w2) \<Rightarrow> refresh_rulestack env sess jwtReq c1 w2))"

section \<open>Initialize\<close>

definition Initialize :: "os_env \<Rightarrow> ('w, getJwt, 'o) api_env \<Rightarrow> Client \<Rightarrow> 'w \<Rightarrow> 'w refreshed" where
  "Initialize os env c w =
     (if length (testData c) > 0 then (None, c\<lparr>Host := ''test.nz''\<rparr>, w)
      else
        (case initCon os c of
           (Some e, c1) \<Rightarrow> (Some e, c1, w)
         | (None, c1) \<Rightarrow> RefreshJwts env c1 w))"

section \<open>Notions the statements use\<close>

text \<open>
  \<open>keeps_explicit c c'\<close>: every configurable field that is set in \<open>c\<close> has the same value
  in \<open>c'\<close>.
\<close>

definition keeps_explicit :: "Client \<Rightarrow> Client \<Rightarrow> bool" where
  "keeps_explicit c c' =
     ((Host c \<noteq> [] \<longrightarrow> Host c' = Host c) \<and>
      (Region c \<noteq> [] \<longrightarrow> Region c' = Region c) \<and>
      (Protocol c \<noteq> [] \<longrightarrow> Protocol c' = Protocol c) \<and>
      (Timeout c \<noteq> 0 \<longrightarrow> Timeout c' = Timeout c) \<and>
      (Headers c \<noteq> [] \<longrightarrow> Headers c' = Headers c) \<and>
      (Logging c \<noteq> 0 \<longrightarrow> Logging c' = Logging c))"

text \<open>The tokens the logging switch of \<^verbatim>\<open>initCon\<close> knows.\<close>

definition known_logging :: "string list" where
  "known_logging =
     [''quiet'', ''login'', ''get'', ''post'', ''put'', ''delete'', ''path'', ''send'', ''receive'']"

text \<open>
  The stages of \<open>initCon\<close> that run before the logging block, and \<open>initCon\<close> written with
  them (\<open>initCon_before_Logging\<close> below).
\<close>

definition before_Logging :: "os_env \<Rightarrow> Client option \<Rightarrow> Client \<Rightarrow> result" where
  "before_Logging env json_client c =
     and_then (init_Host env json_client c) (\<lambda>c.
     and_then (init_Region env json_client c) (\<lambda>c.
     and_then (init_Protocol env json_client c) (\<lambda>c.
     and_then (init_Timeout env json_client c) (\<lambda>c.
     and_then (init_Headers env json_client c) (init_SkipVerifyCertificate env json_client)))))"

section \<open>Concrete surroundings\<close>

text \<open>
  A small environment, an API and some clients, to run the model on. The environment sets
  every variable the resolver reads except the headers and the certificate flag; the
  credentials file decodes to a client with a host, a region, a timeout, headers and a
  logging list. The API records the requests it receives, refuses the rulestack token
  endpoint, answers \<open>0\<close> at \<open>/denied\<close> and \<open>17\<close> elsewhere; a target holds the text decoded into
  it and reports success unless that text is \<open>0\<close>.
\<close>

definition demo_os :: os_env where
  "demo_os =
     \<lparr>os_Getenv = (\<lambda>n.
        if n = ''CLOUD_NGFW_HOST'' then ''env.example''
        else if n = ''CLOUD_NGFW_REGION'' then ''env-region''
        else if n = ''CLOUD_NGFW_PROTOCOL'' then ''http''
        else if n = ''CLOUD_NGFW_TIMEOUT'' then ''5''
        else if n = ''CLOUD_NGFW_LOGGING'' then ''get,bogus''
        else []),
      ioutil_ReadFile = (\<lambda>f. Inr ''{}''),
      strconv_Atoi = (\<lambda>s. if s = ''5'' then Inr 5 else Inl (LibError ''invalid syntax'')),
      strconv_ParseBool = (\<lambda>s. if s = ''true'' then Inr True else if s = ''false'' then Inr False
                                else Inl (LibError ''invalid syntax'')),
      json_decode_Client = (\<lambda>b. Inr (Some (Client_zero\<lparr>Host := ''file.example'',
          Region := ''file-region'', Timeout := 7, Headers := [(''X-From'', ''file'')],
          LoggingFromInitialize := [''get'']\<rparr>))),
      json_decode_Headers = (\<lambda>b h. (None, [(''X-From'', ''env'')])),
      LogQuiet = 2, LogLogin = 4, LogGet = 8, LogPost = 16, LogPut = 32, LogDelete = 64,
      LogPath = 128, LogSend = 256, LogReceive = 512\<rparr>"

definition demo_api :: "(http_Request list, getJwt, string) api_env" where
  "demo_api =
     \<lparr>json_Marshal = (\<lambda>i. Inr ''{}''),
      json_decode = (\<lambda>body tgt. (None, body)),
      oker_Ok = (\<lambda>tgt. tgt \<noteq> ''0''),
      http_NewRequest_error = (\<lambda>m u. None),
      CanonicalMIMEHeaderKey = (\<lambda>k. k),
      v4_Sign = (\<lambda>cv req data service region now. Inr (Header_Set req ''X-Amz-Date'' ''now'')),
      time_Now = length,
      client_Do = (\<lambda>h req w.
        if req_URL req = ''https://api.example/v1/mgmt/tokens/cloudrulestackadmin''
        then (Inl (LibError ''connection refused''), req # w)
        else if req_URL req = ''https://api.example/denied''
        then (Inr \<lparr>resp_StatusCode = 200, resp_ReadAll = Inr ''0''\<rparr>, req # w)
        else (Inr \<lparr>resp_StatusCode = 200, resp_ReadAll = Inr ''17''\<rparr>, req # w)),
      session_NewSession = (\<lambda>so w. (None, w)),
      sts_AssumeRole = (\<lambda>so arn name w.
        (Inr \<lparr>aro_Credentials = Some \<lparr>AccessKeyId = Some ''AK'', SecretAccessKey = Some ''SK'',
                                       SessionToken = Some ''TK''\<rparr>\<rparr>, w)),
      authResponse_zero = [],
      authResponse_Jwt = (\<lambda>ans. ans)\<rparr>"

text \<open>The same API on a machine where no AWS session can be created.\<close>

definition no_session_api :: "(http_Request list, getJwt, string) api_env" where
  "no_session_api = demo_api\<lparr>session_NewSession := (\<lambda>so w. (Some (LibError ''no session''), w))\<rparr>"

text \<open>A client with every configurable field set, reading the environment and a file.\<close>

definition explicit_client :: Client where
  "explicit_client =
     Client_zero\<lparr>Host := ''explicit.example'', Region := ''us-east-1'', Protocol := ''https'',
       Timeout := 30, Headers := [(''X-A'', ''1'')], Logging := 4, CheckEnvironment := True,
       credsFile := ''creds.json''\<rparr>"

text \<open>The same client with test data loaded.\<close>

definition explicit_test_client :: Client where
  "explicit_test_client = explicit_client\<lparr>testData := [''x'']\<rparr>"

text \<open>A client with only host and region set.\<close>

definition minimal_client :: Client where
  "minimal_client = Client_zero\<lparr>Host := ''api.example'', Region := ''us-east-1''\<rparr>"

text \<open>An initialised client with both roles and both tokens.\<close>

definition ready_client :: Client where
  "ready_client =
     Client_zero\<lparr>Host := ''api.example'', Region := ''us-east-1'', Protocol := ''https'',
       Timeout := 20, LfaArn := ''arn:lfa'', LraArn := ''arn:lra'', FirewallJwt := ''fw-token'',
       RulestackJwt := ''rs-token'', apiPrefix := ''https://api.example'',
       con := Some \<lparr>hc_Transport = \<lparr>tr_ProxyFromEnvironment = True, tr_InsecureSkipVerify = False\<rparr>,
                     hc_Timeout = 20000000000\<rparr>\<rparr>"

definition ready_test_client :: Client where
  "ready_test_client = ready_client\<lparr>testData := [''x'']\<rparr>"

definition shared_arn_client :: Client where
  "shared_arn_client = ready_client\<lparr>Arn := ''arn:shared''\<rparr>"

text \<open>The requests the API receives in the runs below.\<close>

definition x_request :: http_Request where
  "x_request =
     \<lparr>req_Method = ''GET'', req_URL = ''https://api.example/v1/x'', req_Body = [],
      req_Header = [(''Content-Type'', ''application/json'')]\<rparr>"

definition denied_request :: http_Request where
  "denied_request =
     \<lparr>req_Method = ''GET'', req_URL = ''https://api.example/denied'', req_Body = [],
      req_Header = [(''Content-Type'', ''application/json''), (''Authorization'', ''fw-token'')]\<rparr>"

definition firewall_token_request :: http_Request where
  "firewall_token_request =
     \<lparr>req_Method = ''GET'', req_URL = ''https://api.example/v1/mgmt/tokens/cloudfirewalladmin'',
      req_Body = ''{}'',
      req_Header = [(''Content-Type'', ''application/json''), (''X-Amz-Date'', ''now'')]\<rparr>"

definition rulestack_token_request :: http_Request where
  "rulestack_token_request =
     \<lparr>req_Method = ''GET'', req_URL = ''https://api.example/v1/mgmt/tokens/cloudrulestackadmin'',
      req_Body = ''{}'',
      req_Header = [(''Content-Type'', ''application/json''), (''X-Amz-Date'', ''now'')]\<rparr>"

lemmas scanner_defs =
  checkValid_def scanner_reset_def scanner_step_def scanner_eof_def scanner_error_def
  stateBeginValue_def stateBeginValueOrEmpty_def stateBeginString_def stateBeginStringOrEmpty_def
  stateEndValue_def stateEndTop_def stateInString_def stateInStringEsc_def stateHex_def
  state0_def state1_def stateNeg_def stateDot_def stateDot0_def stateE_def stateESign_def
  stateE0_def stateLit_def pushParseState_def popParseState_def maxNestingDepth_def
  isSpace_def isDigit_def isDigit19_def isHex_def isControl_def

lemmas initCon_defs =
  initCon_def and_then_def load_json_client_def init_Host_def init_Region_def init_Protocol_def
  check_Protocol_def init_Timeout_def check_Timeout_def init_Headers_def headers_from_file_def
  init_SkipVerifyCertificate_def verify_from_file_def init_Logging_def logging_list_def
  default_Logging_def init_transport_def time_Second_def init_prefix_def
  json_Unmarshal_Client_def json_Unmarshal_Headers_def

lemmas Communicate_defs =
  Communicate_def marshal_input_def obtain_body_def new_request_def configure_auth_def
  sign_request_def perform_def decode_body_def json_Unmarshal_def Header_Set_def Header_Get_def
  permissions_Firewall_def permissions_Rulestack_def

lemmas RefreshJwts_defs =
  RefreshJwts_def refresh_firewall_def refresh_rulestack_def fetch_jwt_def jwt_request_def
  session_options_def

section \<open>Facts about the scanner\<close>

lemma checkValid_stub_body: "checkValid stub_body = Some (JsonSyntaxError ''after object key'')"
  by (simp add: checkValid_def stub_body_def scanner_reset_def scanner_step_def
      stateBeginValue_def stateBeginStringOrEmpty_def stateBeginString_def stateInString_def
      stateEndValue_def pushParseState_def maxNestingDepth_def scanner_error_def scanner_eof_def
      isSpace_def isControl_def)

lemma checkValid_17: "checkValid ''17'' = None"
  by (simp add: scanner_defs)

lemma checkValid_0: "checkValid ''0'' = None"
  by (simp add: scanner_defs)

section \<open>Every stage keeps an explicit value\<close>

lemma keeps_explicit_refl: "keeps_explicit c c"
  by (simp add: keeps_explicit_def)

lemma keeps_explicit_trans: "keeps_explicit a b \<Longrightarrow> keeps_explicit b c \<Longrightarrow> keeps_explicit a c"
  by (auto simp: keeps_explicit_def)

lemma and_then_keeps:
  assumes "keeps_explicit c (snd r)" and "\<And>c1. keeps_explicit c1 (snd (f c1))"
  shows "keeps_explicit c (snd (and_then r f))"
  using assms by (cases r) (auto simp: and_then_def split: option.splits intro: keeps_explicit_trans)

lemma init_Host_keeps: "keeps_explicit c (snd (init_Host os jc c))"
  by (simp add: init_Host_def keeps_explicit_def Let_def split: option.splits)

lemma init_Region_keeps: "keeps_explicit c (snd (init_Region os jc c))"
  by (simp add: init_Region_def keeps_explicit_def Let_def split: option.splits)

lemma check_Protocol_keeps: "keeps_explicit c (snd (check_Protocol c))"
  by (simp add: check_Protocol_def keeps_explicit_def)

lemma init_Protocol_keeps: "keeps_explicit c (snd (init_Protocol os jc c))"
  unfolding init_Protocol_def
proof (rule and_then_keeps)
  show "keeps_explicit c (snd (if Protocol c = [] then
          (let val = os_Getenv os ''CLOUD_NGFW_PROTOCOL'' in
           if CheckEnvironment c \<and> val \<noteq> [] then (None, c\<lparr>Protocol := val\<rparr>)
           else (case jc of
                   None \<Rightarrow> (Some NilPointerPanic, c)
                 | Some j \<Rightarrow>
                     if Protocol j \<noteq> [] then (None, c\<lparr>Protocol := Protocol j\<rparr>)
                     else (None, c\<lparr>Protocol := ''https''\<rparr>)))
        else (None, c)))"
    by (simp add: keeps_explicit_def Let_def split: option.splits)
qed (rule check_Protocol_keeps)

lemma check_Timeout_keeps: "keeps_explicit c (snd (check_Timeout c))"
  by (simp add: check_Timeout_def keeps_explicit_def)

lemma init_Timeout_keeps: "keeps_explicit c (snd (init_Timeout os jc c))"
  unfolding init_Timeout_def
  apply (rule and_then_keeps)
   apply (simp add: keeps_explicit_def Let_def split: option.splits sum.splits)
  apply (rule check_Timeout_keeps)
  done

lemma headers_from_file_keeps: "keeps_explicit c (snd (headers_from_file jc c))"
  by (simp add: headers_from_file_def keeps_explicit_def split: option.splits)

lemma if_keeps:
  "(b \<Longrightarrow> keeps_explicit c (snd x)) \<Longrightarrow> (\<not> b \<Longrightarrow> keeps_explicit c (snd y))
   \<Longrightarrow> keeps_explicit c (snd (if b then x else y))"
  by simp

lemma init_Headers_keeps: "keeps_explicit c (snd (init_Headers os jc c))"
  unfolding init_Headers_def
  apply (rule if_keeps)
   apply (rule and_then_keeps)
    apply (simp add: keeps_explicit_def Let_def split: prod.splits)
   apply (rule headers_from_file_keeps)
  apply (simp add: keeps_explicit_refl)
  done

lemma verify_from_file_keeps: "keeps_explicit c (snd (verify_from_file jc c))"
  by (simp add: verify_from_file_def keeps_explicit_def split: option.splits)

lemma init_SkipVerifyCertificate_keeps: "keeps_explicit c (snd (init_SkipVerifyCertificate os jc c))"
  unfolding init_SkipVerifyCertificate_def
  apply (rule if_keeps)
   apply (rule and_then_keeps)
    apply (simp add: keeps_explicit_def Let_def split: sum.splits)
   apply (rule verify_from_file_keeps)
  apply (simp add: keeps_explicit_refl)
  done

lemma init_Logging_keeps: "keeps_explicit c (snd (init_Logging os jc c))"
  by (simp add: init_Logging_def keeps_explicit_def split: sum.splits)

lemma init_transport_keeps: "keeps_explicit c (snd (init_transport c))"
  by (simp add: init_transport_def keeps_explicit_def Let_def)

lemma init_prefix_keeps: "keeps_explicit c (snd (init_prefix c))"
  by (simp add: init_prefix_def keeps_explicit_def)

lemma initCon_keeps: "keeps_explicit c (snd (initCon os c))"
  unfolding initCon_def
  by (auto split: sum.splits simp: keeps_explicit_refl
      intro!: and_then_keeps init_Host_keeps init_Region_keeps init_Protocol_keeps init_Timeout_keeps
        init_Headers_keeps init_SkipVerifyCertificate_keeps init_Logging_keeps init_transport_keeps
        init_prefix_keeps)

section \<open>Facts about the stages\<close>

lemma and_then_assoc: "and_then (and_then r f) g = and_then r (\<lambda>c. and_then (f c) g)"
  by (cases r) (simp add: and_then_def split: option.splits)

lemma and_then_None: "and_then (None, c) f = f c"
  by (simp add: and_then_def)

lemma and_then_Some: "and_then (Some e, c) f = (Some e, c)"
  by (simp add: and_then_def)

lemma logging_bits_unknown:
  "\<exists>x\<in>set ll. x \<notin> set known_logging
   \<Longrightarrow> \<exists>x\<in>set ll. x \<notin> set known_logging \<and> logging_bits os ll lv = Inl (UnknownLogging x)"
proof (induction ll arbitrary: lv)
  case Nil
  then show ?case by simp
next
  case (Cons y ys)
  show ?case
  proof (cases "y \<in> set known_logging")
    case True
    with Cons.prems have "\<exists>x\<in>set ys. x \<notin> set known_logging" by auto
    then have "\<And>lv'. \<exists>x\<in>set ys. x \<notin> set known_logging \<and> logging_bits os ys lv' = Inl (UnknownLogging x)"
      by (rule Cons.IH)
    with True show ?thesis
      by (auto simp: known_logging_def)
  next
    case False
    then have "logging_bits os (y # ys) lv = Inl (UnknownLogging y)"
      by (simp add: known_logging_def)
    with False show ?thesis by auto
  qed
qed

lemma logging_bits_known:
  "\<forall>x\<in>set ll. x \<in> set known_logging \<Longrightarrow> \<exists>lv'. logging_bits os ll lv = Inr lv'"
  by (induction ll arbitrary: lv) (auto simp: known_logging_def)

lemma init_Logging_unknown:
  assumes "Logging c = 0" and "logging_list os jc c = Inr ll"
    and "\<exists>x\<in>set ll. x \<notin> set known_logging"
  shows "\<exists>x\<in>set ll. x \<notin> set known_logging \<and> init_Logging os jc c = (Some (UnknownLogging x), c)"
proof -
  from assms(3) obtain x where x: "x \<in> set ll" "x \<notin> set known_logging"
    "logging_bits os ll 0 = Inl (UnknownLogging x)"
    using logging_bits_unknown [of ll os 0] by blast
  from x(1) have "length ll > 0" by (cases ll) auto
  with assms(1,2) x(3) have "init_Logging os jc c = (Some (UnknownLogging x), c)"
    by (simp add: init_Logging_def)
  with x show ?thesis by blast
qed

lemma init_Logging_empty:
  assumes "Logging c = 0" and "logging_list os jc c = Inr []"
  shows "init_Logging os jc c = (None, c\<lparr>Logging := default_Logging os\<rparr>)"
  using assms by (simp add: init_Logging_def)

lemma init_transport_Logging: "Logging (snd (init_transport c)) = Logging c"
  by (simp add: init_transport_def Let_def)

lemma init_transport_ok: "fst (init_transport c) = None"
  by (simp add: init_transport_def Let_def)

lemma init_prefix_Logging: "Logging (snd (init_prefix c)) = Logging c"
  by (simp add: init_prefix_def)

lemma after_Logging_keeps_Logging:
  "Logging (snd (and_then (init_transport c) init_prefix)) = Logging c"
  by (cases "init_transport c")
     (use init_transport_Logging [of c] init_transport_ok [of c] in
       \<open>simp add: and_then_def init_prefix_Logging\<close>)

section \<open>Facts about the dispatcher and the token manager\<close>

lemma decode_body_client: "client_after (decode_body env c body output w) = c"
  by (simp add: decode_body_def split: option.splits prod.splits)

lemma Communicate_client:
  "client_after (Communicate env c auth method path input output creds w) = c"
  by (simp add: Communicate_def decode_body_client split: sum.splits prod.splits)

lemma Communicate_many_creds:
  "length creds > 1 \<Longrightarrow>
   Communicate env c auth method path input output creds w =
     \<lparr>ret_body = None, ret_err = Some OnlyOneCredentials, out_target = output,
      client_after = c, world_after = w\<rparr>"
  by (simp add: Communicate_def)

lemma Communicate_body:
  assumes "length creds \<le> 1" and "marshal_input env input = Inr data"
    and "obtain_body env c auth method path data creds w = (Inr body, w1)"
  shows "Communicate env c auth method path input output creds w = decode_body env c body output w1"
  using assms by (simp add: Communicate_def)

lemma Communicate_no_body:
  assumes "length creds \<le> 1" and "marshal_input env input = Inr data"
    and "obtain_body env c auth method path data creds w = (Inl e, w1)"
  shows "Communicate env c auth method path input output creds w =
     \<lparr>ret_body = None, ret_err = Some e, out_target = output, client_after = c, world_after = w1\<rparr>"
  using assms by (simp add: Communicate_def)

lemma Communicate_marshal_fails:
  assumes "length creds \<le> 1" and "marshal_input env input = Inl e"
  shows "Communicate env c auth method path input output creds w =
     \<lparr>ret_body = None, ret_err = Some e, out_target = output, client_after = c, world_after = w\<rparr>"
  using assms by (simp add: Communicate_def)

lemma obtain_body_test: "length (testData c) > 0 \<Longrightarrow>
   obtain_body env c auth method path data creds w = (Inr stub_body, w)"
  by (simp add: obtain_body_def)

lemma json_Unmarshal_stub_body:
  "json_Unmarshal env stub_body tgt = (Some (JsonSyntaxError ''after object key''), tgt)"
  by (simp add: json_Unmarshal_def checkValid_stub_body)

lemma new_request_Authorization:
  "new_request env c method path data = Inr req0 \<Longrightarrow> Header_Get req0 ''Authorization'' = None"
  by (auto simp: new_request_def Let_def Header_Get_def Header_Set_def split: option.splits)

lemma map_of_alist_set: "map_of (alist_set h k v) k = Some v"
  by (induction h k v rule: alist_set.induct) auto

lemma Header_Get_Set: "Header_Get (Header_Set req k v) k = Some v"
  by (simp add: Header_Get_def Header_Set_def map_of_alist_set)

lemma fetch_jwt_client: "fst (snd (fetch_jwt env sess jwtReq arn admin c w)) = c"
  by (simp add: fetch_jwt_def Let_def Communicate_client split: prod.splits sum.splits option.splits)

lemma refresh_firewall_client:
  "\<exists>f. fst (snd (refresh_firewall env sess jwtReq c w)) = c\<lparr>FirewallJwt := f\<rparr>"
proof (cases "LfaArn c = []")
  case True
  then have "fst (snd (refresh_firewall env sess jwtReq c w)) = c\<lparr>FirewallJwt := FirewallJwt c\<rparr>"
    by (simp add: refresh_firewall_def)
  then show ?thesis by blast
next
  case False
  obtain r c1 w1 where f: "fetch_jwt env sess jwtReq (LfaArn c) ''cloudfirewalladmin'' c w = (r, c1, w1)"
    by (cases "fetch_jwt env sess jwtReq (LfaArn c) ''cloudfirewalladmin'' c w") auto
  with fetch_jwt_client [of env sess jwtReq "LfaArn c" "''cloudfirewalladmin''" c w]
  have c1: "c1 = c" by simp
  show ?thesis
  proof (cases r)
    case (Inl e)
    with f c1 False have "fst (snd (refresh_firewall env sess jwtReq c w)) = c\<lparr>FirewallJwt := FirewallJwt c\<rparr>"
      by (simp add: refresh_firewall_def)
    then show ?thesis by blast
  next
    case (Inr jwt)
    with f c1 False have "fst (snd (refresh_firewall env sess jwtReq c w)) = c\<lparr>FirewallJwt := jwt\<rparr>"
      by (simp add: refresh_firewall_def)
    then show ?thesis by blast
  qed
qed

lemma refresh_rulestack_client:
  "\<exists>g. fst (snd (refresh_rulestack env sess jwtReq c w)) = c\<lparr>RulestackJwt := g\<rparr>"
proof (cases "LraArn c = []")
  case True
  then have "fst (snd (refresh_rulestack env sess jwtReq c w)) = c\<lparr>RulestackJwt := RulestackJwt c\<rparr>"
    by (simp add: refresh_rulestack_def)
  then show ?thesis by blast
next
  case False
  obtain r c1 w1 where f: "fetch_jwt env sess jwtReq (LraArn c) ''cloudrulestackadmin'' c w = (r, c1, w1)"
    by (cases "fetch_jwt env sess jwtReq (LraArn c) ''cloudrulestackadmin'' c w") auto
  with fetch_jwt_client [of env sess jwtReq "LraArn c" "''cloudrulestackadmin''" c w]
  have c1: "c1 = c" by simp
  show ?thesis
  proof (cases r)
    case (Inl e)
    with f c1 False have "fst (snd (refresh_rulestack env sess jwtReq c w)) = c\<lparr>RulestackJwt := RulestackJwt c\<rparr>"
      by (simp add: refresh_rulestack_def)
    then show ?thesis by blast
  next
    case (Inr jwt)
    with f c1 False have "fst (snd (refresh_rulestack env sess jwtReq c w)) = c\<lparr>RulestackJwt := jwt\<rparr>"
      by (simp add: refresh_rulestack_def)
    then show ?thesis by blast
  qed
qed

lemma RefreshJwts_client:
  "\<exists>f g. fst (snd (RefreshJwts env c w)) = c\<lparr>FirewallJwt := f, RulestackJwt := g\<rparr>"
proof -
  let ?sess = "session_options c" and ?req = "jwt_request c"
  obtain r0 w1 where s: "session_NewSession env ?sess w = (r0, w1)"
    by (cases "session_NewSession env ?sess w") auto
  have same: "c = c\<lparr>FirewallJwt := FirewallJwt c, RulestackJwt := RulestackJwt c\<rparr>" by simp
  show ?thesis
  proof (cases "r0 \<noteq> None \<or> Arn c \<noteq> []")
    case True
    with s have "fst (snd (RefreshJwts env c w)) = c"
      by (auto simp: RefreshJwts_def Let_def split: option.splits)
    with same show ?thesis by metis
  next
    case False
    obtain r1 c1 w2 where f: "refresh_firewall env ?sess ?req c w1 = (r1, c1, w2)"
      by (cases "refresh_firewall env ?sess ?req c w1") auto
    with refresh_firewall_client [of env ?sess ?req c w1]
    obtain fw where c1: "c1 = c\<lparr>FirewallJwt := fw\<rparr>" by auto
    show ?thesis
    proof (cases r1)
      case (Some e)
      with s f False have "fst (snd (RefreshJwts env c w)) = c1"
        by (simp add: RefreshJwts_def Let_def)
      with c1 have "fst (snd (RefreshJwts env c w)) = c\<lparr>FirewallJwt := fw, RulestackJwt := RulestackJwt c\<rparr>"
        by simp
      then show ?thesis by blast
    next
      case None
      with s f False have "fst (snd (RefreshJwts env c w)) = fst (snd (refresh_rulestack env ?sess ?req c1 w2))"
        by (simp add: RefreshJwts_def Let_def)
      moreover from refresh_rulestack_client [of env ?sess ?req c1 w2]
      obtain g where "fst (snd (refresh_rulestack env ?sess ?req c1 w2)) = c1\<lparr>RulestackJwt := g\<rparr>"
        by auto
      ultimately have "fst (snd (RefreshJwts env c w)) = c\<lparr>FirewallJwt := fw, RulestackJwt := g\<rparr>"
        using c1 by simp
      then show ?thesis by blast
    qed
  qed
qed

lemma RefreshJwts_keeps: "keeps_explicit c (fst (snd (RefreshJwts env c w)))"
proof -
  obtain f g where "fst (snd (RefreshJwts env c w)) = c\<lparr>FirewallJwt := f, RulestackJwt := g\<rparr>"
    using RefreshJwts_client [of env c w] by auto
  then show ?thesis by (simp add: keeps_explicit_def)
qed

lemma Initialize_keeps:
  "length (testData c) = 0 \<Longrightarrow> keeps_explicit c (fst (snd (Initialize os env c w)))"
proof -
  assume t: "length (testData c) = 0"
  obtain r1 c1 where i: "initCon os c = (r1, c1)" by (cases "initCon os c") auto
  with initCon_keeps [of c os] have k1: "keeps_explicit c c1" by simp
  show ?thesis
  proof (cases r1)
    case (Some e)
    with t i k1 show ?thesis by (simp add: Initialize_def)
  next
    case None
    with t i have "fst (snd (Initialize os env c w)) = fst (snd (RefreshJwts env c1 w))"
      by (simp add: Initialize_def)
    with k1 RefreshJwts_keeps [of c1 env w] show ?thesis
      by (auto intro: keeps_explicit_trans)
  qed
qed

lemma Initialize_test_mode:
  "length (testData c) > 0 \<Longrightarrow> Initialize os env c w = (None, c\<lparr>Host := ''test.nz''\<rparr>, w)"
  by (simp add: Initialize_def)

lemma initCon_before_Logging:
  "initCon os c =
     (case load_json_client os c of
        Inl e \<Rightarrow> (Some e, c)
      | Inr jc \<Rightarrow>
          and_then (before_Logging os jc c) (\<lambda>c.
          and_then (init_Logging os jc c) (\<lambda>c.
          and_then (init_transport c) init_prefix)))"
  by (simp add: initCon_def before_Logging_def and_then_assoc split: sum.splits)

lemma fetch_jwt_fails:
  "fetch_jwt env sess jwtReq arn admin c w = (Inl e, c1, w1) \<longleftrightarrow>
     c1 = c \<and>
     (sts_AssumeRole env sess arn ''sdk_session'' w = (Inl e, w1) \<or>
      (\<exists>result w0.
         sts_AssumeRole env sess arn ''sdk_session'' w = (Inr result, w0) \<and>
         ret_err (Communicate env c [] ''GET'' [''v1'', ''mgmt'', ''tokens'', admin] (Some jwtReq)
                    (Some (authResponse_zero env)) [aro_Credentials result] w0) = Some e \<and>
         world_after (Communicate env c [] ''GET'' [''v1'', ''mgmt'', ''tokens'', admin] (Some jwtReq)
                    (Some (authResponse_zero env)) [aro_Credentials result] w0) = w1))"
  by (cases "sts_AssumeRole env sess arn ''sdk_session'' w")
     (auto simp: fetch_jwt_def Let_def Communicate_client split: sum.splits option.splits)

section \<open>The configuration resolver\<close>

text \<open>
  C1. Initialize keeps every configurable value that is set on the client: region, protocol,
  timeout, headers and logging always, and host when no test data is loaded. This holds for
  every environment, every credentials file and every outcome of the call, also when it
  returns an error. With test data loaded Initialize resolves nothing and sets the host to
  \<open>test.nz\<close>, so an explicit host survives only without it.
\<close>

theorem Initialize_explicit_values:
  "(Host c \<noteq> [] \<and> length (testData c) = 0 \<longrightarrow> Host (fst (snd (Initialize os env c w))) = Host c) \<and>
   (Region c \<noteq> [] \<longrightarrow> Region (fst (snd (Initialize os env c w))) = Region c) \<and>
   (Protocol c \<noteq> [] \<longrightarrow> Protocol (fst (snd (Initialize os env c w))) = Protocol c) \<and>
   (Timeout c \<noteq> 0 \<longrightarrow> Timeout (fst (snd (Initialize os env c w))) = Timeout c) \<and>
   (Headers c \<noteq> [] \<longrightarrow> Headers (fst (snd (Initialize os env c w))) = Headers c) \<and>
   (Logging c \<noteq> 0 \<longrightarrow> Logging (fst (snd (Initialize os env c w))) = Logging c)"
proof (cases "length (testData c) = 0")
  case True
  then have "keeps_explicit c (fst (snd (Initialize os env c w)))"
    by (rule Initialize_keeps)
  then show ?thesis by (simp add: keeps_explicit_def)
next
  case False
  then have "Initialize os env c w = (None, c\<lparr>Host := ''test.nz''\<rparr>, w)"
    by (simp add: Initialize_test_mode)
  with False show ?thesis by simp
qed

theorem Initialize_explicit_values_witness:
  "Host (fst (snd (Initialize demo_os demo_api explicit_client []))) = ''explicit.example'' \<and>
   Region (fst (snd (Initialize demo_os demo_api explicit_client []))) = ''us-east-1'' \<and>
   Protocol (fst (snd (Initialize demo_os demo_api explicit_client []))) = ''https'' \<and>
   Timeout (fst (snd (Initialize demo_os demo_api explicit_client []))) = 30 \<and>
   Headers (fst (snd (Initialize demo_os demo_api explicit_client []))) = [(''X-A'', ''1'')] \<and>
   Logging (fst (snd (Initialize demo_os demo_api explicit_client []))) = 4 \<and>
   os_Getenv demo_os ''CLOUD_NGFW_HOST'' = ''env.example'' \<and> CheckEnvironment explicit_client"
  using Initialize_explicit_values [of explicit_client demo_os demo_api "[]"]
  by (simp add: explicit_client_def Client_zero_def demo_os_def)

text \<open>
  C1 as it is worded, for every explicit host, fails: with test data loaded, the explicit host
  \<open>explicit.example\<close> is replaced.
\<close>

theorem Initialize_test_data_replaces_Host:
  "Host explicit_test_client = ''explicit.example'' \<and>
   Host (fst (snd (Initialize demo_os demo_api explicit_test_client []))) = ''test.nz''"
  by (simp add: Initialize_def explicit_test_client_def explicit_client_def Client_zero_def)

text \<open>
  C7. A client with only host and region set, that does not read the environment and has no
  credentials file: protocol, timeout, headers and logging unset. \<open>initCon\<close> succeeds, whatever
  the environment holds, and leaves protocol \<open>https\<close>, a timeout of 20 seconds (20 in the
  client, 20 000 000 000 nanoseconds in the HTTP client it builds) and the logging bitmask
  \<^verbatim>\<open>LogLogin | LogPost | LogPut | LogDelete\<close>.
\<close>

theorem initCon_host_and_region_only:
  assumes "Host c \<noteq> []" and "Region c \<noteq> []" and "Protocol c = []" and "Timeout c = 0"
    and "Headers c = []" and "Logging c = 0" and "\<not> CheckEnvironment c" and "credsFile c = []"
  shows "fst (initCon os c) = None \<and>
         Protocol (snd (initCon os c)) = ''https'' \<and>
         Timeout (snd (initCon os c)) = 20 \<and>
         Logging (snd (initCon os c)) = LogLogin os OR LogPost os OR LogPut os OR LogDelete os \<and>
         (\<exists>h. con (snd (initCon os c)) = Some h \<and> hc_Timeout h = 20000000000)"
  using assms by (simp add: initCon_defs Client_zero_def Let_def)

theorem initCon_host_and_region_only_witness:
  "Host minimal_client \<noteq> [] \<and> Region minimal_client \<noteq> [] \<and>
   fst (initCon demo_os minimal_client) = None \<and>
   Protocol (snd (initCon demo_os minimal_client)) = ''https'' \<and>
   Timeout (snd (initCon demo_os minimal_client)) = 20 \<and>
   Logging (snd (initCon demo_os minimal_client)) = 116"
proof -
  have h: "Host minimal_client \<noteq> []" "Region minimal_client \<noteq> []" "Protocol minimal_client = []"
    "Timeout minimal_client = 0" "Headers minimal_client = []" "Logging minimal_client = 0"
    "\<not> CheckEnvironment minimal_client" "credsFile minimal_client = []"
    by (simp_all add: minimal_client_def Client_zero_def)
  have "LogLogin demo_os OR LogPost demo_os OR LogPut demo_os OR LogDelete demo_os = 116"
    by (simp add: demo_os_def)
  with initCon_host_and_region_only [OF h, of demo_os] h(1,2) show ?thesis by simp
qed

text \<open>
  C8. The logging block of \<open>initCon\<close>, reached with client \<open>c\<close> whose bitmask is zero, resolves
  the token list \<open>ll\<close>. If some token of \<open>ll\<close> is not one of quiet, login, get, post, put,
  delete, path, send, receive, \<open>initCon\<close> returns the error for an unknown token, an invalid
  configuration, and leaves the bitmask as it was. If \<open>ll\<close> is empty, the bitmask is set to
  \<^verbatim>\<open>LogLogin | LogPost | LogPut | LogDelete\<close>, and \<open>initCon\<close> returns the client with it.
\<close>

theorem initCon_logging_tokens:
  assumes "load_json_client os c0 = Inr jc" and "before_Logging os jc c0 = (None, c)"
    and "Logging c = 0" and "logging_list os jc c = Inr ll"
  shows "((\<exists>x\<in>set ll. x \<notin> set known_logging) \<longrightarrow>
            (\<exists>x\<in>set ll. x \<notin> set known_logging \<and>
               initCon os c0 = (Some (UnknownLogging x), c) \<and>
               kind_of (UnknownLogging x) = Some InvalidConfiguration)) \<and>
         (ll = [] \<longrightarrow>
            init_Logging os jc c = (None, c\<lparr>Logging := default_Logging os\<rparr>) \<and>
            Logging (snd (initCon os c0)) = LogLogin os OR LogPost os OR LogPut os OR LogDelete os)"
proof -
  have split: "initCon os c0 =
      and_then (init_Logging os jc c) (\<lambda>c. and_then (init_transport c) init_prefix)"
    using assms(1,2) by (simp add: initCon_before_Logging and_then_None)
  have unknown: "\<exists>x\<in>set ll. x \<notin> set known_logging \<and>
               initCon os c0 = (Some (UnknownLogging x), c) \<and>
               kind_of (UnknownLogging x) = Some InvalidConfiguration"
    if "\<exists>x\<in>set ll. x \<notin> set known_logging"
  proof -
    from init_Logging_unknown [OF assms(3,4) that]
    obtain x where "x \<in> set ll" "x \<notin> set known_logging"
      "init_Logging os jc c = (Some (UnknownLogging x), c)" by blast
    with split show ?thesis by (auto simp: and_then_Some)
  qed
  have empty: "init_Logging os jc c = (None, c\<lparr>Logging := default_Logging os\<rparr>) \<and>
      Logging (snd (initCon os c0)) = LogLogin os OR LogPost os OR LogPut os OR LogDelete os"
    if "ll = []"
  proof -
    from that assms(3,4) have l: "init_Logging os jc c = (None, c\<lparr>Logging := default_Logging os\<rparr>)"
      by (simp add: init_Logging_empty)
    with split have "initCon os c0 = and_then (init_transport (c\<lparr>Logging := default_Logging os\<rparr>)) init_prefix"
      by (simp add: and_then_None)
    then have "Logging (snd (initCon os c0)) = default_Logging os"
      by (simp add: after_Logging_keeps_Logging)
    with l show ?thesis by (simp add: default_Logging_def)
  qed
  from unknown empty show ?thesis by blast
qed

theorem initCon_logging_tokens_witness:
  "initCon demo_os (minimal_client\<lparr>CheckEnvironment := True\<rparr>) =
     (Some (UnknownLogging ''bogus''), minimal_client\<lparr>CheckEnvironment := True, Protocol := ''http'', Timeout := 5\<rparr>) \<and>
   Logging (snd (initCon demo_os minimal_client)) = 116"
proof -
  let ?start = "minimal_client\<lparr>CheckEnvironment := True\<rparr>"
  let ?mid = "minimal_client\<lparr>CheckEnvironment := True, Protocol := ''http'', Timeout := 5\<rparr>"
  have a1: "load_json_client demo_os ?start = Inr (Some Client_zero)"
    by (simp add: load_json_client_def minimal_client_def Client_zero_def)
  have a2: "before_Logging demo_os (Some Client_zero) ?start = (None, ?mid)"
    by (simp add: before_Logging_def initCon_defs minimal_client_def Client_zero_def demo_os_def Let_def)
  have a3: "Logging ?mid = 0"
    by (simp add: minimal_client_def Client_zero_def)
  have a4: "logging_list demo_os (Some Client_zero) ?mid = Inr [''get'', ''bogus'']"
    by (simp add: logging_list_def minimal_client_def Client_zero_def demo_os_def)
  have m: "\<exists>x\<in>set [''get'', ''bogus'']. x \<notin> set known_logging"
    by (simp add: known_logging_def)
  have u: "x \<in> set [''get'', ''bogus''] \<Longrightarrow> x \<notin> set known_logging \<Longrightarrow> x = ''bogus''" for x
    by (auto simp: known_logging_def)
  from initCon_logging_tokens [OF a1 a2 a3 a4] m u
  have first: "initCon demo_os ?start = (Some (UnknownLogging ''bogus''), ?mid)"
    by blast
  let ?dflt = "minimal_client\<lparr>Protocol := ''https'', Timeout := 20\<rparr>"
  have b1: "load_json_client demo_os minimal_client = Inr (Some Client_zero)"
    by (simp add: load_json_client_def minimal_client_def Client_zero_def)
  have b2: "before_Logging demo_os (Some Client_zero) minimal_client = (None, ?dflt)"
    by (simp add: before_Logging_def initCon_defs minimal_client_def Client_zero_def demo_os_def Let_def)
  have b3: "Logging ?dflt = 0"
    by (simp add: minimal_client_def Client_zero_def)
  have b4: "logging_list demo_os (Some Client_zero) ?dflt = Inr []"
    by (simp add: logging_list_def minimal_client_def Client_zero_def demo_os_def)
  have "LogLogin demo_os OR LogPost demo_os OR LogPut demo_os OR LogDelete demo_os = 116"
    by (simp add: demo_os_def)
  with initCon_logging_tokens [OF b1 b2 b3 b4]
  have second: "Logging (snd (initCon demo_os minimal_client)) = 116"
    by simp
  from first second show ?thesis by simp
qed

section \<open>The dispatcher\<close>

text \<open>
  C2. A call of Communicate that reaches the switch on the auth scope: no test data is loaded,
  at most one credential set is supplied, the payload serialises and the request \<open>req0\<close> is
  built. Scope \<open>firewall\<close> sets the header \<open>Authorization\<close> of the request to the client's
  firewall token, scope \<open>rulestack\<close> to its rulestack token, and the empty scope leaves the
  request as it is, with no \<open>Authorization\<close> header; with these three scopes the call goes on
  with that request. Any other scope makes Communicate return the error for an unknown auth
  type, an invalid argument, with no body, and the world is as before: nothing was sent.
\<close>

theorem Communicate_auth_scope:
  assumes "length (testData c) = 0" and "length creds \<le> 1"
    and "marshal_input env input = Inr data" and "new_request env c method path data = Inr req0"
  shows "(\<exists>req1. configure_auth c permissions_Firewall req0 = Inr req1 \<and>
            Header_Get req1 ''Authorization'' = Some (FirewallJwt c)) \<and>
         (\<exists>req1. configure_auth c permissions_Rulestack req0 = Inr req1 \<and>
            Header_Get req1 ''Authorization'' = Some (RulestackJwt c)) \<and>
         (configure_auth c [] req0 = Inr req0 \<and> Header_Get req0 ''Authorization'' = None) \<and>
         (auth \<in> {[], permissions_Firewall, permissions_Rulestack} \<longrightarrow>
            (\<exists>req1. configure_auth c auth req0 = Inr req1 \<and>
               obtain_body env c auth method path data creds w =
                 (case sign_request env c data creds (custom_headers env (Headers c) req1) w of
                    Inl e \<Rightarrow> (Inl e, w)
                  | Inr req2 \<Rightarrow> perform env c req2 w))) \<and>
         (auth \<notin> {[], permissions_Firewall, permissions_Rulestack} \<longrightarrow>
            Communicate env c auth method path input output creds w =
              \<lparr>ret_body = None, ret_err = Some (UnknownAuthType auth), out_target = output,
               client_after = c, world_after = w\<rparr> \<and>
            kind_of (UnknownAuthType auth) = Some InvalidArgument)"
proof -
  have fw: "\<exists>req1. configure_auth c permissions_Firewall req0 = Inr req1 \<and>
            Header_Get req1 ''Authorization'' = Some (FirewallJwt c)"
    by (simp add: configure_auth_def permissions_Firewall_def Header_Get_Set)
  have rs: "\<exists>req1. configure_auth c permissions_Rulestack req0 = Inr req1 \<and>
            Header_Get req1 ''Authorization'' = Some (RulestackJwt c)"
    by (simp add: configure_auth_def permissions_Firewall_def permissions_Rulestack_def Header_Get_Set)
  have none: "configure_auth c [] req0 = Inr req0 \<and> Header_Get req0 ''Authorization'' = None"
    using assms(4) by (simp add: configure_auth_def new_request_Authorization)
  have known: "\<exists>req1. configure_auth c auth req0 = Inr req1 \<and>
               obtain_body env c auth method path data creds w =
                 (case sign_request env c data creds (custom_headers env (Headers c) req1) w of
                    Inl e \<Rightarrow> (Inl e, w)
                  | Inr req2 \<Rightarrow> perform env c req2 w)"
    if "auth \<in> {[], permissions_Firewall, permissions_Rulestack}"
  proof -
    from that obtain req1 where r: "configure_auth c auth req0 = Inr req1"
      by (auto simp: configure_auth_def permissions_Firewall_def permissions_Rulestack_def)
    with assms(1,4) show ?thesis by (simp add: obtain_body_def)
  qed
  have unknown: "Communicate env c auth method path input output creds w =
              \<lparr>ret_body = None, ret_err = Some (UnknownAuthType auth), out_target = output,
               client_after = c, world_after = w\<rparr> \<and>
            kind_of (UnknownAuthType auth) = Some InvalidArgument"
    if "auth \<notin> {[], permissions_Firewall, permissions_Rulestack}"
  proof -
    from that have "configure_auth c auth req0 = Inl (UnknownAuthType auth)"
      by (simp add: configure_auth_def)
    with assms(1,4) have "obtain_body env c auth method path data creds w = (Inl (UnknownAuthType auth), w)"
      by (simp add: obtain_body_def)
    with assms(2,3) show ?thesis by (simp add: Communicate_no_body)
  qed
  from fw rs none known unknown show ?thesis by blast
qed

theorem Communicate_auth_scope_witness:
  "Communicate demo_api ready_client ''bogus'' ''GET'' [''v1'', ''x''] None (Some []) [] [] =
     \<lparr>ret_body = None, ret_err = Some (UnknownAuthType ''bogus''), out_target = Some [],
      client_after = ready_client, world_after = []\<rparr> \<and>
   (\<exists>req1. configure_auth ready_client ''firewall'' x_request = Inr req1 \<and>
      Header_Get req1 ''Authorization'' = Some ''fw-token'') \<and>
   (\<exists>req1. configure_auth ready_client ''rulestack'' x_request = Inr req1 \<and>
      Header_Get req1 ''Authorization'' = Some ''rs-token'') \<and>
   Header_Get x_request ''Authorization'' = None"
proof -
  have h1: "length (testData ready_client) = 0" by (simp add: ready_client_def Client_zero_def)
  have h2: "length ([] :: sts_Credentials option list) \<le> 1" by simp
  have h3: "marshal_input demo_api None = Inr []" by (simp add: marshal_input_def)
  have h4: "new_request demo_api ready_client ''GET'' [''v1'', ''x''] [] = Inr x_request"
    by (simp add: new_request_def Header_Set_def ready_client_def Client_zero_def demo_api_def x_request_def)
  have h5: "''bogus'' \<notin> {[], permissions_Firewall, permissions_Rulestack}"
    by (simp add: permissions_Firewall_def permissions_Rulestack_def)
  have j: "FirewallJwt ready_client = ''fw-token''" "RulestackJwt ready_client = ''rs-token''"
    by (simp_all add: ready_client_def Client_zero_def)
  from Communicate_auth_scope [OF h1 h2 h3 h4, of "''bogus''" "[]" "Some []"] h5 j
  show ?thesis by (simp add: permissions_Firewall_def permissions_Rulestack_def)
qed

text \<open>
  C2 as it is worded, for every call, fails: with test data loaded the scope is never looked
  at, and a call with the unknown scope \<open>bogus\<close> returns the stub body and no error.
\<close>

theorem Communicate_unknown_scope_with_test_data:
  "length (testData ready_test_client) > 0 \<and>
   ''bogus'' \<noteq> permissions_Firewall \<and> ''bogus'' \<noteq> permissions_Rulestack \<and>
   Communicate demo_api ready_test_client ''bogus'' ''GET'' [''v1'', ''x''] None None [] [] =
     \<lparr>ret_body = Some stub_body, ret_err = None, out_target = None,
      client_after = ready_test_client, world_after = []\<rparr>"
  by (simp add: Communicate_defs ready_test_client_def ready_client_def Client_zero_def demo_api_def)

text \<open>
  C3. A call of Communicate with an output target that obtains a response body: if the body
  decodes into the target without error and the decoded target's \<open>Ok\<close> reports failure,
  Communicate returns the body together with the output target as the error, never nil.
\<close>

theorem Communicate_output_not_ok:
  assumes "length creds \<le> 1" and "marshal_input env input = Inr data"
    and "obtain_body env c auth method path data creds w = (Inr body, w1)"
    and "json_Unmarshal env body tgt = (None, tgt1)" and "\<not> oker_Ok env tgt1"
  shows "Communicate env c auth method path input (Some tgt) creds w =
           \<lparr>ret_body = Some body, ret_err = Some OutputAsError, out_target = Some tgt1,
            client_after = c, world_after = w1\<rparr> \<and>
         ret_err (Communicate env c auth method path input (Some tgt) creds w) \<noteq> None \<and>
         kind_of OutputAsError = Some ApiError"
proof -
  have "Communicate env c auth method path input (Some tgt) creds w = decode_body env c body (Some tgt) w1"
    using assms(1-3) by (rule Communicate_body)
  with assms(4,5) show ?thesis by (simp add: decode_body_def)
qed

theorem Communicate_output_not_ok_witness:
  "Communicate demo_api ready_client ''firewall'' ''GET'' [''denied''] None (Some []) [] [] =
     \<lparr>ret_body = Some ''0'', ret_err = Some OutputAsError, out_target = Some ''0'',
      client_after = ready_client, world_after = [denied_request]\<rparr>"
proof -
  have h1: "length ([] :: sts_Credentials option list) \<le> 1" by simp
  have h2: "marshal_input demo_api None = Inr []" by (simp add: marshal_input_def)
  have h3: "obtain_body demo_api ready_client ''firewall'' ''GET'' [''denied''] [] [] [] =
      (Inr ''0'', [denied_request])"
    by (simp add: Communicate_defs ready_client_def Client_zero_def demo_api_def denied_request_def Let_def)
  have h4: "json_Unmarshal demo_api ''0'' [] = (None, ''0'')"
    by (simp add: json_Unmarshal_def checkValid_0 demo_api_def)
  have h5: "\<not> oker_Ok demo_api ''0''" by (simp add: demo_api_def)
  from Communicate_output_not_ok [OF h1 h2 h3 h4 h5] show ?thesis by simp
qed

text \<open>
  C6. A call of Communicate with two or more credential sets returns the error for more than
  one credential set, an invalid argument, with no body. The result is the same for every
  scope, method, path, payload, output target, client, library and world, and the world is as
  before: nothing was serialised, built or sent.
\<close>

theorem Communicate_two_credentials:
  assumes "length creds \<ge> 2"
  shows "Communicate env c auth method path input output creds w =
           \<lparr>ret_body = None, ret_err = Some OnlyOneCredentials, out_target = output,
            client_after = c, world_after = w\<rparr> \<and>
         kind_of OnlyOneCredentials = Some InvalidArgument"
  using assms by (simp add: Communicate_many_creds)

theorem Communicate_two_credentials_witness:
  "length [None, None :: sts_Credentials option] \<ge> 2 \<and>
   ret_body (Communicate demo_api ready_client ''firewall'' ''GET'' [''v1''] None (Some []) [None, None] []) = None \<and>
   ret_err (Communicate demo_api ready_client ''firewall'' ''GET'' [''v1''] None (Some []) [None, None] [])
     = Some OnlyOneCredentials \<and>
   world_after (Communicate demo_api ready_client ''firewall'' ''GET'' [''v1''] None (Some []) [None, None] []) = []"
proof -
  have h: "length [None, None :: sts_Credentials option] \<ge> 2" by simp
  from Communicate_two_credentials [OF h, of demo_api ready_client "''firewall''" "''GET''" "[''v1'']" None "Some []" "[]"]
  show ?thesis by simp
qed

text \<open>
  C9. With test data loaded, a call of Communicate with an output target, at most one
  credential set and a payload that serialises returns the stub body together with the
  syntax error of the JSON check, a malformed response. The target is left as it was, the world
  too, and the result does not depend on the target's \<open>Ok\<close>.
\<close>

theorem Communicate_test_data_parse_error:
  assumes "length (testData c) > 0" and "length creds \<le> 1" and "marshal_input env input = Inr data"
  shows "Communicate env c auth method path input (Some tgt) creds w =
           \<lparr>ret_body = Some stub_body, ret_err = Some (JsonSyntaxError ''after object key''),
            out_target = Some tgt, client_after = c, world_after = w\<rparr> \<and>
         kind_of (JsonSyntaxError ''after object key'') = Some MalformedResponse \<and>
         Communicate (env\<lparr>oker_Ok := ok\<rparr>) c auth method path input (Some tgt) creds w =
           Communicate env c auth method path input (Some tgt) creds w"
proof -
  have result: "Communicate env' c auth method path input (Some tgt) creds w =
           \<lparr>ret_body = Some stub_body, ret_err = Some (JsonSyntaxError ''after object key''),
            out_target = Some tgt, client_after = c, world_after = w\<rparr>"
    if "marshal_input env' input = Inr data" for env' :: "('a, 'b, 'c) api_env"
  proof -
    have "obtain_body env' c auth method path data creds w = (Inr stub_body, w)"
      using assms(1) by (rule obtain_body_test)
    with assms(2) that
    have "Communicate env' c auth method path input (Some tgt) creds w =
        decode_body env' c stub_body (Some tgt) w"
      by (rule Communicate_body)
    then show ?thesis by (simp add: decode_body_def json_Unmarshal_stub_body)
  qed
  have "marshal_input (env\<lparr>oker_Ok := ok\<rparr>) input = Inr data"
    using assms(3) by (simp add: marshal_input_def split: option.splits)
  with result [of env] result [of "env\<lparr>oker_Ok := ok\<rparr>"] assms(3) show ?thesis by simp
qed

theorem Communicate_test_data_parse_error_witness:
  "length (testData ready_test_client) > 0 \<and>
   Communicate demo_api ready_test_client ''bogus'' ''GET'' [''v1'', ''x''] None (Some []) [] [] =
     \<lparr>ret_body = Some stub_body, ret_err = Some (JsonSyntaxError ''after object key''),
      out_target = Some [], client_after = ready_test_client, world_after = []\<rparr>"
proof -
  have h1: "length (testData ready_test_client) > 0" by (simp add: ready_test_client_def ready_client_def Client_zero_def)
  have h2: "length ([] :: sts_Credentials option list) \<le> 1" by simp
  have h3: "marshal_input demo_api None = Inr []" by (simp add: marshal_input_def)
  from Communicate_test_data_parse_error [OF h1 h2 h3] h1 show ?thesis by simp
qed

text \<open>
  C9 as it is worded, for every call with an output target, fails: the check on the credential
  sets comes before the stub, and a call with two credential sets returns its error and no
  body.
\<close>

theorem Communicate_test_data_two_credentials:
  "length (testData ready_test_client) > 0 \<and>
   ret_body (Communicate demo_api ready_test_client [] ''GET'' [] None (Some []) [None, None] []) = None \<and>
   ret_err (Communicate demo_api ready_test_client [] ''GET'' [] None (Some []) [None, None] [])
     = Some OnlyOneCredentials"
  by (simp add: Communicate_def ready_test_client_def ready_client_def Client_zero_def)

text \<open>
  C10. Communicate leaves the client as it was, whatever the arguments and the outcome.
\<close>

theorem Communicate_leaves_client:
  "client_after (Communicate env c auth method path input output creds w) = c"
  by (rule Communicate_client)

theorem Communicate_leaves_client_witness:
  "client_after (Communicate demo_api ready_client ''firewall'' ''GET'' [''v1'', ''x''] None (Some []) [] [])
     = ready_client"
  using Communicate_leaves_client [of demo_api ready_client "''firewall''" "''GET''" "[''v1'', ''x'']" None "Some []" "[]" "[]"]
  by simp

section \<open>The token manager\<close>

text \<open>
  C4. With a shared role identifier set, RefreshJwts always fails and leaves the client, so
  both tokens, as it was; after creating the session it does nothing to the world: no role
  is assumed and no token is asked for. The error is the one for the unsupported shared
  identifier whenever the session could be created; when it could not, the error returned
  is the very error of the session's creation.
\<close>

theorem RefreshJwts_shared_arn:
  assumes "Arn c \<noteq> []"
  shows "fst (RefreshJwts env c w) \<noteq> None \<and>
         (fst (session_NewSession env (session_options c) w) = None \<longrightarrow>
            fst (RefreshJwts env c w) = Some NoSharedArnEndpoint) \<and>
         (fst (session_NewSession env (session_options c) w) \<noteq> None \<longrightarrow>
            fst (RefreshJwts env c w) = fst (session_NewSession env (session_options c) w)) \<and>
         kind_of NoSharedArnEndpoint = Some UnsupportedOperation \<and>
         fst (snd (RefreshJwts env c w)) = c \<and>
         FirewallJwt (fst (snd (RefreshJwts env c w))) = FirewallJwt c \<and>
         RulestackJwt (fst (snd (RefreshJwts env c w))) = RulestackJwt c \<and>
         snd (snd (RefreshJwts env c w)) = snd (session_NewSession env (session_options c) w)"
  using assms
  by (cases "session_NewSession env (session_options c) w")
     (auto simp: RefreshJwts_def Let_def split: option.splits)

theorem RefreshJwts_shared_arn_witness:
  "Arn shared_arn_client \<noteq> [] \<and>
   RefreshJwts demo_api shared_arn_client [] = (Some NoSharedArnEndpoint, shared_arn_client, []) \<and>
   RefreshJwts no_session_api shared_arn_client [] = (Some (LibError ''no session''), shared_arn_client, [])"
proof -
  have h: "Arn shared_arn_client \<noteq> []" by (simp add: shared_arn_client_def ready_client_def Client_zero_def)
  have s: "session_NewSession demo_api (session_options shared_arn_client) [] = (None, [])"
    by (simp add: demo_api_def)
  have n: "session_NewSession no_session_api (session_options shared_arn_client) [] =
      (Some (LibError ''no session''), [])"
    by (simp add: no_session_api_def demo_api_def)
  from RefreshJwts_shared_arn [OF h, of demo_api "[]"] s
  have a: "RefreshJwts demo_api shared_arn_client [] = (Some NoSharedArnEndpoint, shared_arn_client, [])"
    by (cases "RefreshJwts demo_api shared_arn_client []") simp
  from RefreshJwts_shared_arn [OF h, of no_session_api "[]"] n
  have b: "RefreshJwts no_session_api shared_arn_client [] =
      (Some (LibError ''no session''), shared_arn_client, [])"
    by (cases "RefreshJwts no_session_api shared_arn_client []") simp
  from h a b show ?thesis by simp
qed

text \<open>
  C4 as it is worded, the unsupported-operation error for every client with a shared
  identifier, fails: where no session can be created, the session's error comes first.
\<close>

theorem RefreshJwts_shared_arn_no_session:
  "Arn shared_arn_client \<noteq> [] \<and>
   fst (RefreshJwts no_session_api shared_arn_client []) = Some (LibError ''no session'') \<and>
   kind_of (LibError ''no session'') \<noteq> Some UnsupportedOperation"
  by (simp add: RefreshJwts_def Let_def shared_arn_client_def ready_client_def Client_zero_def no_session_api_def demo_api_def)

text \<open>
  C5. Both role identifiers are set, there is no shared one, and the session is created. If
  the firewall token is fetched, as \<open>jwt\<close>, and fetching the rulestack token then fails with
  \<open>e\<close>, in the role assumption or in the token request (\<open>fetch_jwt_fails\<close>), RefreshJwts returns
  \<open>e\<close>; the client holds \<open>jwt\<close> as its firewall token and its rulestack token is unchanged.
\<close>

theorem RefreshJwts_rulestack_fails:
  assumes "session_NewSession env (session_options c) w = (None, w1)"
    and "Arn c = []" and "LfaArn c \<noteq> []" and "LraArn c \<noteq> []"
    and "fetch_jwt env (session_options c) (jwt_request c) (LfaArn c) ''cloudfirewalladmin'' c w1
           = (Inr jwt, c1, w2)"
    and "fetch_jwt env (session_options c) (jwt_request c) (LraArn c) ''cloudrulestackadmin''
           (c\<lparr>FirewallJwt := jwt\<rparr>) w2 = (Inl e, c2, w3)"
  shows "RefreshJwts env c w = (Some e, c\<lparr>FirewallJwt := jwt\<rparr>, w3) \<and>
         FirewallJwt (fst (snd (RefreshJwts env c w))) = jwt \<and>
         RulestackJwt (fst (snd (RefreshJwts env c w))) = RulestackJwt c"
proof -
  from fetch_jwt_client [of env "session_options c" "jwt_request c" "LfaArn c" "''cloudfirewalladmin''" c w1]
    assms(5)
  have c1: "c1 = c" by simp
  from fetch_jwt_client [of env "session_options c" "jwt_request c" "LraArn c" "''cloudrulestackadmin''"
      "c\<lparr>FirewallJwt := jwt\<rparr>" w2] assms(6)
  have c2: "c2 = c\<lparr>FirewallJwt := jwt\<rparr>" by simp
  from assms(3,5) c1
  have fw: "refresh_firewall env (session_options c) (jwt_request c) c w1 = (None, c\<lparr>FirewallJwt := jwt\<rparr>, w2)"
    by (simp add: refresh_firewall_def)
  from assms(4,6) c2
  have rs: "refresh_rulestack env (session_options c) (jwt_request c) (c\<lparr>FirewallJwt := jwt\<rparr>) w2
      = (Some e, c\<lparr>FirewallJwt := jwt\<rparr>, w3)"
    by (simp add: refresh_rulestack_def)
  from assms(1,2) fw rs have "RefreshJwts env c w = (Some e, c\<lparr>FirewallJwt := jwt\<rparr>, w3)"
    by (simp add: RefreshJwts_def Let_def)
  then show ?thesis by simp
qed

theorem RefreshJwts_rulestack_fails_witness:
  "RefreshJwts demo_api ready_client [] =
     (Some (LibError ''connection refused''), ready_client\<lparr>FirewallJwt := ''17''\<rparr>,
      [rulestack_token_request, firewall_token_request]) \<and>
   RulestackJwt (fst (snd (RefreshJwts demo_api ready_client []))) = ''rs-token''"
proof -
  have h1: "session_NewSession demo_api (session_options ready_client) [] = (None, [])"
    by (simp add: demo_api_def)
  have h2: "Arn ready_client = []" and h3: "LfaArn ready_client \<noteq> []" and h4: "LraArn ready_client \<noteq> []"
    by (simp_all add: ready_client_def Client_zero_def)
  have h5: "fetch_jwt demo_api (session_options ready_client) (jwt_request ready_client)
      (LfaArn ready_client) ''cloudfirewalladmin'' ready_client [] =
      (Inr ''17'', ready_client, [firewall_token_request])"
    by (simp add: fetch_jwt_def Communicate_defs ready_client_def Client_zero_def demo_api_def checkValid_17 firewall_token_request_def Let_def)
  have h6: "fetch_jwt demo_api (session_options ready_client) (jwt_request ready_client)
      (LraArn ready_client) ''cloudrulestackadmin'' (ready_client\<lparr>FirewallJwt := ''17''\<rparr>)
      [firewall_token_request] =
      (Inl (LibError ''connection refused''), ready_client\<lparr>FirewallJwt := ''17''\<rparr>,
       [rulestack_token_request, firewall_token_request])"
    by (simp add: fetch_jwt_def Communicate_defs ready_client_def Client_zero_def demo_api_def rulestack_token_request_def
        firewall_token_request_def Let_def)
  have r: "RulestackJwt ready_client = ''rs-token''" by (simp add: ready_client_def Client_zero_def)
  from RefreshJwts_rulestack_fails [OF h1 h2 h3 h4 h5 h6] r show ?thesis by simp
qed

end
